theory Spec2Isabelle
  imports Main "HOL-Library.Word"
begin

section \<open>Gridly data table importer and exporter\<close>

text \<open>
  A shallow embedding of \<^verbatim>\<open>Source/Gridly/Public/GridlyDataTableImporterJSON.cpp\<close>
  (\<^verbatim>\<open>FGridlyDataTableImporterJSON\<close>: \<^verbatim>\<open>ReadTable\<close>, \<^verbatim>\<open>ReadRow\<close>,
  \<^verbatim>\<open>ReadStruct\<close>, \<^verbatim>\<open>ReadStructEntry\<close>, \<^verbatim>\<open>ReadContainerEntry\<close>) and of the
  data table overload of \<^verbatim>\<open>FGridlyExporter::ConvertToJson\<close> in
  \<^verbatim>\<open>Source/GridlyEditor/Private/GridlyExporter.cpp\<close>.

  The engine the plugin is compiled against (JSON reader and writer, property reflection,
  \<^verbatim>\<open>DataTableUtils\<close>) is not part of the repository. Whatever the two files take from it
  without showing how it behaves is a field of the record \<open>Host\<close>, so every theorem holds
  for every engine behaviour; the preprocessor switches of the two files are fields of the
  same record.
\<close>

subsection \<open>Strings and names\<close>

type_synonym int64 = "64 word"
type_synonym size_t = "64 word"

text \<open>A \<^verbatim>\<open>double\<close> is carried as its 64 bit pattern; the two files never compute with one.\<close>

type_synonym double = "64 word"

text \<open>
  \<^verbatim>\<open>FString::operator==\<close> ignores case, and so do \<^verbatim>\<open>TArray<FString>::Contains\<close> and the
  lookup of a key of \<^verbatim>\<open>FJsonObject::Values\<close>.
\<close>

definition ToLower :: "char \<Rightarrow> char" where
  "ToLower c =
     (let n = (of_char c :: nat)
      in if 65 \<le> n \<and> n \<le> 90
         then Char (digit0 c) (digit1 c) (digit2 c) (digit3 c) (digit4 c) True (digit6 c) (digit7 c)
         else c)"

definition FString_eq :: "string \<Rightarrow> string \<Rightarrow> bool" where
  "FString_eq a b = (map ToLower a = map ToLower b)"

text \<open>
  An \<^verbatim>\<open>FName\<close> is known by its comparison identity: two names are the same name when they
  are equal here. \<open>NAME_None\<close> is the name \<^verbatim>\<open>IsNone()\<close> recognises.
\<close>

datatype FName = NAME_None | Name string

definition IsNone :: "FName \<Rightarrow> bool" where
  "IsNone n = (n = NAME_None)"

subsection \<open>JSON values\<close>

datatype EJson = EJson_None | EJson_Null | EJson_String | EJson_Number | EJson_Boolean
  | EJson_Array | EJson_Object

datatype FJsonValue =
    FJsonValueNull
  | FJsonValueString string
  | FJsonValueNumber double
  | FJsonValueBoolean bool
  | FJsonValueArray "FJsonValue list"
  | FJsonValueObject "(string \<times> FJsonValue) list"

text \<open>An \<^verbatim>\<open>FJsonObject\<close> is its \<^verbatim>\<open>Values\<close>, in document order.\<close>

type_synonym FJsonObject = "(string \<times> FJsonValue) list"

fun Type :: "FJsonValue \<Rightarrow> EJson" where
  "Type FJsonValueNull = EJson_Null"
| "Type (FJsonValueString s) = EJson_String"
| "Type (FJsonValueNumber n) = EJson_Number"
| "Type (FJsonValueBoolean b) = EJson_Boolean"
| "Type (FJsonValueArray vs) = EJson_Array"
| "Type (FJsonValueObject kvs) = EJson_Object"

fun JSONTypeToString :: "EJson \<Rightarrow> string" where
  "JSONTypeToString EJson_None = ''None''"
| "JSONTypeToString EJson_Null = ''Null''"
| "JSONTypeToString EJson_String = ''String''"
| "JSONTypeToString EJson_Number = ''Number''"
| "JSONTypeToString EJson_Boolean = ''Boolean''"
| "JSONTypeToString EJson_Array = ''Array''"
| "JSONTypeToString EJson_Object = ''Object''"

fun TryGetArray :: "FJsonValue \<Rightarrow> FJsonValue list option" where
  "TryGetArray (FJsonValueArray vs) = Some vs"
| "TryGetArray v = None"

fun TryGetObject :: "FJsonValue \<Rightarrow> FJsonObject option" where
  "TryGetObject (FJsonValueObject kvs) = Some kvs"
| "TryGetObject v = None"

fun TryGetField :: "FJsonObject \<Rightarrow> string \<Rightarrow> FJsonValue option" where
  "TryGetField [] FieldName = None"
| "TryGetField ((k, v) # kvs) FieldName =
     (if FString_eq k FieldName then Some v else TryGetField kvs FieldName)"

subsection \<open>Property descriptors\<close>

text \<open>
  The reflection data the two files read off an \<^verbatim>\<open>FProperty\<close>: its name, what
  \<^verbatim>\<open>DataTableUtils::GetPropertyExportName\<close> and \<^verbatim>\<open>GetPropertyImportNames\<close> give for it,
  whether it carries the metadata \<^verbatim>\<open>DataTableImportOptional\<close>, its \<^verbatim>\<open>ArrayDim\<close>, and the
  class the chain of \<^verbatim>\<open>CastField\<close> tests finds. \<open>FOtherProperty\<close> is every class the chain
  does not name. \<open>Properties\<close> is the sequence \<^verbatim>\<open>TFieldIterator<FProperty>\<close> walks.
\<close>

datatype FProperty =
  FProperty (GetFName: FName) (GetPropertyExportName: string)
    (GetPropertyImportNames: "string list") (DataTableImportOptional: bool)
    (ArrayDim: int) (Class: FPropertyClass)
and FPropertyClass =
    FEnumProperty
  | FNumericProperty (IsEnum: bool) (IsInteger: bool)
  | FBoolProperty
  | FArrayProperty (Inner: FProperty)
  | FSetProperty (ElementProp: FProperty)
  | FMapProperty (KeyProp: FProperty) (ValueProp: FProperty)
  | FStructProperty (Struct: UScriptStruct)
  | FOtherProperty
and UScriptStruct =
  UScriptStruct (GetName: string) (Properties: "FProperty list")

subsection \<open>Record memory\<close>

text \<open>
  The memory of a record instance, read through its descriptors. A struct block gives the
  value at every (property, static array index); \<^verbatim>\<open>ContainerPtrToValuePtr\<close> picks one.
  \<open>VInt\<close>, \<open>VDouble\<close> and \<open>VBool\<close> are what \<^verbatim>\<open>SetIntPropertyValue\<close>,
  \<^verbatim>\<open>SetFloatingPointPropertyValue\<close> and \<^verbatim>\<open>SetPropertyValue\<close> were given. A set and a map
  carry their elements in the order they were added and two facts about the calls made on
  their helper: whether \<^verbatim>\<open>Rehash\<close> has run since the last
  \<^verbatim>\<open>AddDefaultValue_Invalid_NeedsRehash\<close>, and how often \<^verbatim>\<open>Rehash\<close> has run at all (a ghost
  counter). \<open>VText\<close> and \<open>VRaw\<close> are for the host: a value imported from text, and memory
  nobody has written.
\<close>

datatype PropValue =
    VRaw
  | VInt int64
  | VDouble double
  | VBool bool
  | VText string
  | VArray "PropValue list"
  | VSet "PropValue list" bool nat
  | VMap "(PropValue \<times> PropValue) list" bool nat
  | VStruct "FName \<Rightarrow> nat \<Rightarrow> PropValue"

type_synonym StructData = "FName \<Rightarrow> nat \<Rightarrow> PropValue"

definition ContainerPtrToValuePtr :: "FProperty \<Rightarrow> StructData \<Rightarrow> nat \<Rightarrow> PropValue" where
  "ContainerPtrToValuePtr p d i = d (GetFName p) i"

text \<open>A write through the pointer \<^verbatim>\<open>ContainerPtrToValuePtr\<close> returns.\<close>

definition StoreValue :: "FProperty \<Rightarrow> StructData \<Rightarrow> nat \<Rightarrow> PropValue \<Rightarrow> StructData" where
  "StoreValue p d i v = d(GetFName p := (d (GetFName p))(i := v))"

text \<open>The struct block a pointer to a struct property's value points to.\<close>

fun AsStruct :: "PropValue \<Rightarrow> StructData" where
  "AsStruct (VStruct d) = d"
| "AsStruct v = (\<lambda>n i. VRaw)"

fun RehashCount :: "PropValue \<Rightarrow> nat" where
  "RehashCount (VSet xs valid n) = n"
| "RehashCount (VMap kvs valid n) = n"
| "RehashCount v = 0"

subsection \<open>The host\<close>

record Host =
  WITH_EDITOR :: bool
  HS_GRIDLY_ALLOW_ARBITARY_STRUCT_IN_TABLE :: bool
  HS_GRIDLY_ALLOW_SET_PROPERTYTYPE_IN_TABLE :: bool
  Deserialize :: "string \<Rightarrow> FJsonValue list option"
  DeserializeValue :: "string \<Rightarrow> FJsonValue option"
  GetErrorMessage :: "string \<Rightarrow> string"
  AsObject :: "FJsonValue \<Rightarrow> FJsonObject option"
  GetStringField :: "FJsonObject \<Rightarrow> string \<Rightarrow> string"
  TryGetString :: "FJsonValue \<Rightarrow> string option"
  TryGetNumber_int64 :: "FJsonValue \<Rightarrow> int64 option"
  TryGetNumber_double :: "FJsonValue \<Rightarrow> double option"
  TryGetBool :: "FJsonValue \<Rightarrow> bool option"
  MakeValidName :: "string \<Rightarrow> FName"
  InitializeStruct :: "UScriptStruct \<Rightarrow> StructData"
  InitializeValue :: "FProperty \<Rightarrow> PropValue"
  AssignStringToProperty :: "string \<Rightarrow> FProperty \<Rightarrow> StructData \<Rightarrow> string \<times> StructData"
  AssignStringToPropertyDirect :: "string \<Rightarrow> FProperty \<Rightarrow> PropValue \<Rightarrow> string \<times> PropValue"

text \<open>
  \<^item> \<open>Deserialize\<close>, \<open>DeserializeValue\<close>: \<^verbatim>\<open>FJsonSerializer::Deserialize\<close> into an array of
    values and into one value; \<open>None\<close> when it returns false. \<open>GetErrorMessage\<close> is the
    reader's message for a text.
  \<^item> \<open>AsObject\<close>: \<^verbatim>\<open>FJsonValue::AsObject\<close>; \<open>None\<close> when the pointer it returns is not valid.
  \<^item> \<open>TryGetString\<close>, \<open>TryGetNumber_int64\<close>, \<open>TryGetNumber_double\<close>, \<open>TryGetBool\<close>: the
    coercions of \<^verbatim>\<open>FJsonValue\<close>; \<open>None\<close> when they return false.
  \<^item> \<open>InitializeStruct\<close>: a freshly allocated, initialised instance of a struct;
    \<open>InitializeValue\<close>: the element a container helper adds (\<^verbatim>\<open>AddValue\<close>,
    \<^verbatim>\<open>AddDefaultValue_Invalid_NeedsRehash\<close>).
  \<^item> \<open>AssignStringToProperty\<close>, \<open>AssignStringToPropertyDirect\<close>: the functions of
    \<^verbatim>\<open>DataTableUtils\<close>, on a struct block and on one value; they return the error text
    (empty when there is none) and the memory they leave.
\<close>

subsection \<open>Problems\<close>

text \<open>
  One constructor for each format string added to \<^verbatim>\<open>ImportProblems\<close>, with the arguments
  of its \<^verbatim>\<open>FString::Printf\<close> in the order they are passed.
\<close>

datatype Problem =
    InputDataIsEmpty
  | NoRowStructSpecified
  | FailedToParseJSON string
  | RowNotValidObject int
  | FailedToReadRow int
  | RowMissingKeyField int string
  | DuplicateRowName FName
  | PropertyNotFoundInStruct FName FName string
  | RowMissingEntry FName string
  | PropertyIncorrectType string FName string string
  | StaticArraySizeMismatch string FName int int
  | PropertyInvalidEnum string FName string
  | ProblemAssigningKey string string FName string
  | ProblemAssigningString string string FName string
  | EntryInvalidEnum int string FName string
  | EntryIncorrectType int string FName string string
  | ProblemAssigningStringToEntry int string string FName string

subsection \<open>The data table\<close>

text \<open>
  \<open>RowMap\<close> is \<^verbatim>\<open>TMap<FName, uint8*>\<close> in insertion order. The map owns the memory of its
  rows, and a row's memory is reached through its entry only, so an entry holds the row's
  block itself: a write through \<^verbatim>\<open>RowData\<close> is a write to the entry.
\<close>

record UGridlyDataTable =
  RowStruct :: "UScriptStruct option"
  ImportKeyField :: string
  bIgnoreExtraFields :: bool
  bIgnoreMissingFields :: bool
  AllowDuplicateRowsOnImport :: bool
  RowMap :: "(FName \<times> StructData) list"

definition GetKeyFieldName :: "UGridlyDataTable \<Rightarrow> string" where
  "GetKeyFieldName InDataTable =
     (let ExplicitString = ImportKeyField InDataTable
      in if ExplicitString = [] then ''Name'' else ExplicitString)"

fun Find :: "(FName \<times> StructData) list \<Rightarrow> FName \<Rightarrow> StructData option" where
  "Find [] k = None"
| "Find ((k', d) # m) k = (if k' = k then Some d else Find m k)"

text \<open>\<^verbatim>\<open>TMap::Add\<close>: the value of a key already there is replaced where it stands.\<close>

fun Add :: "(FName \<times> StructData) list \<Rightarrow> FName \<Rightarrow> StructData \<Rightarrow> (FName \<times> StructData) list" where
  "Add [] k d = [(k, d)]"
| "Add ((k', d') # m) k d = (if k' = k then (k, d) # m else (k', d') # Add m k d)"

definition AddRowInternal :: "UGridlyDataTable \<Rightarrow> FName \<Rightarrow> StructData \<Rightarrow> UGridlyDataTable" where
  "AddRowInternal t RowName RowData = t\<lparr>RowMap := Add (RowMap t) RowName RowData\<rparr>"

text \<open>What a write through the pointer \<^verbatim>\<open>RowData\<close> of a registered row does to the table.\<close>

definition StoreRowData :: "UGridlyDataTable \<Rightarrow> FName \<Rightarrow> StructData \<Rightarrow> UGridlyDataTable" where
  "StoreRowData t RowName RowData = t\<lparr>RowMap := Add (RowMap t) RowName RowData\<rparr>"

definition EmptyTable :: "UGridlyDataTable \<Rightarrow> UGridlyDataTable" where
  "EmptyTable t = t\<lparr>RowMap := []\<rparr>"

subsection \<open>The struct walker and the two entry codecs\<close>

text \<open>
  Lines 193 to 200 of the importer: the first import name of the property the row object
  has a field for gives the value.
\<close>

fun FindParsedPropertyValue :: "FJsonObject \<Rightarrow> string list \<Rightarrow> FJsonValue option" where
  "FindParsedPropertyValue obj [] = None"
| "FindParsedPropertyValue obj (PropertyName # names) =
     (case TryGetField obj PropertyName of
        Some v \<Rightarrow> Some v
      | None \<Rightarrow> FindParsedPropertyValue obj names)"

text \<open>
  \<^verbatim>\<open>ReadStruct\<close>, \<^verbatim>\<open>ReadStructEntry\<close> and \<^verbatim>\<open>ReadContainerEntry\<close> with their loops. They all
  take the host \<open>H\<close> and \<open>ign\<close>, the table's \<^verbatim>\<open>bIgnoreMissingFields\<close>; they thread
  \<^verbatim>\<open>ImportProblems\<close> (the last argument) and the memory they write, and return both.
  \<^item> \<open>ReadStruct_fields\<close> is the loop of \<^verbatim>\<open>ReadStruct\<close> over the properties (lines 180 to
    277) and \<open>ReadStruct_field\<close> the body of that loop: it returns false where the body has
    \<^verbatim>\<open>return false\<close> and true where the loop goes on to the next property.
    \<open>ReadStaticArray\<close> is the loop over the indices of a static array (lines 267 to 275).
  \<^item> \<open>ReadStructEntry\<close> is called with \<^verbatim>\<open>InRowData\<close> the struct block and
    \<^verbatim>\<open>InPropertyData\<close> the value of the property at index 0 in that block (line 225), so it
    takes the block and writes the value through \<open>StoreValue\<close>.
  \<^item> \<open>ReadArrayEntries\<close>, \<open>ReadSetEntries\<close> and \<open>ReadMapEntries\<close> are the loops of lines
    378 to 384, 398 to 404 and 419 to 442. They start from the emptied container and take
    the elements added so far; \<^verbatim>\<open>NewEntryIndex\<close> is their number.
  \<^item> \<open>ReadContainerEntry\<close> takes the value \<^verbatim>\<open>InPropertyData\<close> points to and returns the
    value it leaves there.
  The block of lines 226 to 246 (line 226 reads \<^verbatim>\<open>if\<close> for \<^verbatim>\<open>#if\<close>) is the retry on a string
  that holds JSON when the switch \<^verbatim>\<open>HS_GRIDLY_ALLOW_ARBITARY_STRUCT_IN_TABLE\<close> is set, and the
  plain call of line 245 otherwise.
\<close>

function
  ReadStruct :: "Host \<Rightarrow> bool \<Rightarrow> FJsonObject \<Rightarrow> UScriptStruct \<Rightarrow> FName \<Rightarrow> StructData \<Rightarrow> Problem list
    \<Rightarrow> bool \<times> StructData \<times> Problem list"
and ReadStruct_fields :: "Host \<Rightarrow> bool \<Rightarrow> FJsonObject \<Rightarrow> FProperty list \<Rightarrow> FName \<Rightarrow> StructData
    \<Rightarrow> Problem list \<Rightarrow> bool \<times> StructData \<times> Problem list"
and ReadStruct_field :: "Host \<Rightarrow> bool \<Rightarrow> FJsonObject \<Rightarrow> FProperty \<Rightarrow> FName \<Rightarrow> StructData
    \<Rightarrow> Problem list \<Rightarrow> bool \<times> StructData \<times> Problem list"
and ReadStaticArray :: "Host \<Rightarrow> bool \<Rightarrow> FJsonValue list \<Rightarrow> FName \<Rightarrow> string \<Rightarrow> FProperty \<Rightarrow> nat list
    \<Rightarrow> StructData \<Rightarrow> Problem list \<Rightarrow> StructData \<times> Problem list"
and ReadStructEntry :: "Host \<Rightarrow> bool \<Rightarrow> FJsonValue \<Rightarrow> FName \<Rightarrow> string \<Rightarrow> StructData \<Rightarrow> FProperty
    \<Rightarrow> Problem list \<Rightarrow> bool \<times> StructData \<times> Problem list"
and ReadArrayEntries :: "Host \<Rightarrow> bool \<Rightarrow> FJsonValue list \<Rightarrow> FName \<Rightarrow> string \<Rightarrow> FProperty
    \<Rightarrow> PropValue list \<Rightarrow> Problem list \<Rightarrow> PropValue list \<times> Problem list"
and ReadSetEntries :: "Host \<Rightarrow> bool \<Rightarrow> FJsonValue list \<Rightarrow> FName \<Rightarrow> string \<Rightarrow> FProperty
    \<Rightarrow> PropValue list \<Rightarrow> Problem list \<Rightarrow> PropValue list \<times> Problem list"
and ReadMapEntries :: "Host \<Rightarrow> bool \<Rightarrow> (string \<times> FJsonValue) list \<Rightarrow> FName \<Rightarrow> string \<Rightarrow> FProperty
    \<Rightarrow> FProperty \<Rightarrow> (PropValue \<times> PropValue) list \<Rightarrow> Problem list
    \<Rightarrow> bool \<times> (PropValue \<times> PropValue) list \<times> Problem list"
and ReadContainerEntry :: "Host \<Rightarrow> bool \<Rightarrow> FJsonValue \<Rightarrow> FName \<Rightarrow> string \<Rightarrow> int \<Rightarrow> FProperty
    \<Rightarrow> PropValue \<Rightarrow> Problem list \<Rightarrow> bool \<times> PropValue \<times> Problem list"
where
  "ReadStruct H ign obj S row d ps = ReadStruct_fields H ign obj (Properties S) row d ps"
| "ReadStruct_fields H ign obj [] row d ps = (True, d, ps)"
| "ReadStruct_fields H ign obj (BaseProp # rest) row d ps =
     (case ReadStruct_field H ign obj BaseProp row d ps of
        (go, d1, ps1) \<Rightarrow>
          if go then ReadStruct_fields H ign obj rest row d1 ps1 else (False, d1, ps1))"
| "ReadStruct_field H ign obj p row d ps =
     (let ColumnName = GetPropertyExportName p in
      case FindParsedPropertyValue obj (GetPropertyImportNames p) of
        None \<Rightarrow>
          if WITH_EDITOR H \<and> DataTableImportOptional p then (True, d, ps)
          else (True, d, if \<not> ign then ps @ [RowMissingEntry row ColumnName] else ps)
      | Some v \<Rightarrow>
          if ArrayDim p = 1 then
            (case ReadStructEntry H ign v row ColumnName d p ps of
               (ok, d1, ps1) \<Rightarrow>
                 if HS_GRIDLY_ALLOW_ARBITARY_STRUCT_IN_TABLE H \<and> \<not> ok \<and> Type v = EJson_String
                 then
                   (case DeserializeValue H (case TryGetString H v of Some s \<Rightarrow> s | None \<Rightarrow> []) of
                      Some parsedRowStruct \<Rightarrow>
                        (case ReadStructEntry H ign parsedRowStruct row ColumnName d1 p ps1 of
                           (ok2, d2, ps2) \<Rightarrow> (True, d2, ps2))
                    | None \<Rightarrow> (True, d1, ps1))
                 else (True, d1, ps1))
          else
            (case TryGetArray v of
               None \<Rightarrow>
                 (False, d, ps @ [PropertyIncorrectType ColumnName row ''Array''
                                   (JSONTypeToString (Type v))])
             | Some PropertyValues \<Rightarrow>
                 (case ReadStaticArray H ign PropertyValues row ColumnName p
                         [0..<nat (ArrayDim p)] d
                         (if ArrayDim p \<noteq> int (length PropertyValues)
                          then ps @ [StaticArraySizeMismatch ColumnName row (ArrayDim p)
                                       (int (length PropertyValues))]
                          else ps) of
                    (d1, ps1) \<Rightarrow> (True, d1, ps1))))"
| "ReadStaticArray H ign vals row col p [] d ps = (d, ps)"
| "ReadStaticArray H ign vals row col p (ArrayEntryIndex # idxs) d ps =
     (if ArrayEntryIndex < length vals then
        (case ReadContainerEntry H ign (vals ! ArrayEntryIndex) row col (int ArrayEntryIndex) p
                (ContainerPtrToValuePtr p d ArrayEntryIndex) ps of
           (ok, v1, ps1) \<Rightarrow>
             ReadStaticArray H ign vals row col p idxs (StoreValue p d ArrayEntryIndex v1) ps1)
      else ReadStaticArray H ign vals row col p idxs d ps)"
| "ReadStructEntry H ign v row col d p ps =
     (let ParsedPropertyType = JSONTypeToString (Type v) in
      case Class p of
        FEnumProperty \<Rightarrow>
          (case TryGetString H v of
             Some EnumValue \<Rightarrow>
               (case AssignStringToProperty H EnumValue p d of
                  (Error, d1) \<Rightarrow>
                    if Error \<noteq> [] then (False, d1, ps @ [PropertyInvalidEnum col row EnumValue])
                    else (True, d1, ps))
           | None \<Rightarrow>
               (case TryGetNumber_int64 H v of
                  None \<Rightarrow> (False, d, ps @ [PropertyIncorrectType col row ''Integer'' ParsedPropertyType])
                | Some PropertyValue \<Rightarrow> (True, StoreValue p d 0 (VInt PropertyValue), ps)))
      | FNumericProperty isEnum isInteger \<Rightarrow>
          (case (if isEnum then TryGetString H v else None) of
             Some EnumValue \<Rightarrow>
               (case AssignStringToProperty H EnumValue p d of
                  (Error, d1) \<Rightarrow>
                    if Error \<noteq> [] then (False, d1, ps @ [PropertyInvalidEnum col row EnumValue])
                    else (True, d1, ps))
           | None \<Rightarrow>
               if isInteger then
                 (case TryGetNumber_int64 H v of
                    None \<Rightarrow> (False, d, ps @ [PropertyIncorrectType col row ''Integer'' ParsedPropertyType])
                  | Some PropertyValue \<Rightarrow> (True, StoreValue p d 0 (VInt PropertyValue), ps))
               else
                 (case TryGetNumber_double H v of
                    None \<Rightarrow> (False, d, ps @ [PropertyIncorrectType col row ''Double'' ParsedPropertyType])
                  | Some PropertyValue \<Rightarrow> (True, StoreValue p d 0 (VDouble PropertyValue), ps)))
      | FBoolProperty \<Rightarrow>
          (case TryGetBool H v of
             None \<Rightarrow> (False, d, ps @ [PropertyIncorrectType col row ''Boolean'' ParsedPropertyType])
           | Some PropertyValue \<Rightarrow> (True, StoreValue p d 0 (VBool PropertyValue), ps))
      | FArrayProperty inner \<Rightarrow>
          (case TryGetArray v of
             None \<Rightarrow> (False, d, ps @ [PropertyIncorrectType col row ''Array'' ParsedPropertyType])
           | Some PropertyValues \<Rightarrow>
               (case ReadArrayEntries H ign PropertyValues row col inner [] ps of
                  (elems, ps1) \<Rightarrow> (True, StoreValue p d 0 (VArray elems), ps1)))
      | FSetProperty elemProp \<Rightarrow>
          (case TryGetArray v of
             None \<Rightarrow> (False, d, ps @ [PropertyIncorrectType col row ''Array'' ParsedPropertyType])
           | Some PropertyValues \<Rightarrow>
               (case ReadSetEntries H ign PropertyValues row col elemProp [] ps of
                  (elems, ps1) \<Rightarrow>
                    (True, StoreValue p d 0
                       (VSet elems True (Suc (RehashCount (ContainerPtrToValuePtr p d 0)))), ps1)))
      | FMapProperty keyProp valueProp \<Rightarrow>
          (case TryGetObject v of
             None \<Rightarrow> (False, d, ps @ [PropertyIncorrectType col row ''Object'' ParsedPropertyType])
           | Some PropertyValue \<Rightarrow>
               (case ReadMapEntries H ign PropertyValue row col keyProp valueProp [] ps of
                  (ok, pairs, ps1) \<Rightarrow>
                    if ok
                    then (True, StoreValue p d 0
                            (VMap pairs True (Suc (RehashCount (ContainerPtrToValuePtr p d 0)))), ps1)
                    else (False, StoreValue p d 0
                            (VMap pairs False (RehashCount (ContainerPtrToValuePtr p d 0))), ps1)))
      | FStructProperty S \<Rightarrow>
          (case TryGetObject v of
             Some PropertyValue \<Rightarrow>
               (case ReadStruct H ign PropertyValue S row (AsStruct (ContainerPtrToValuePtr p d 0)) ps of
                  (ok, sd, ps1) \<Rightarrow> (ok, StoreValue p d 0 (VStruct sd), ps1))
           | None \<Rightarrow>
               (case TryGetString H v of
                  None \<Rightarrow> (False, d, ps @ [PropertyIncorrectType col row ''String'' ParsedPropertyType])
                | Some PropertyValueString \<Rightarrow>
                    (case AssignStringToProperty H PropertyValueString p d of
                       (Error, d1) \<Rightarrow>
                         if Error \<noteq> []
                         then (False, d1, ps @ [ProblemAssigningString PropertyValueString col row Error])
                         else (True, d1, ps))))
      | FOtherProperty \<Rightarrow>
          (case TryGetString H v of
             None \<Rightarrow> (False, d, ps @ [PropertyIncorrectType col row ''String'' ParsedPropertyType])
           | Some PropertyValue \<Rightarrow>
               (case AssignStringToProperty H PropertyValue p d of
                  (Error, d1) \<Rightarrow>
                    if Error \<noteq> []
                    then (False, d1, ps @ [ProblemAssigningString PropertyValue col row Error])
                    else (True, d1, ps))))"
| "ReadArrayEntries H ign [] row col inner elems ps = (elems, ps)"
| "ReadArrayEntries H ign (PropertyValueEntry # vals) row col inner elems ps =
     (case ReadContainerEntry H ign PropertyValueEntry row col (int (length elems)) inner
             (InitializeValue H inner) ps of
        (ok, v1, ps1) \<Rightarrow> ReadArrayEntries H ign vals row col inner (elems @ [v1]) ps1)"
| "ReadSetEntries H ign [] row col elemProp elems ps = (elems, ps)"
| "ReadSetEntries H ign (PropertyValueEntry # vals) row col elemProp elems ps =
     (case ReadContainerEntry H ign PropertyValueEntry row col (int (length elems)) elemProp
             (InitializeValue H elemProp) ps of
        (ok, v1, ps1) \<Rightarrow> ReadSetEntries H ign vals row col elemProp (elems @ [v1]) ps1)"
| "ReadMapEntries H ign [] row col keyProp valueProp pairs ps = (True, pairs, ps)"
| "ReadMapEntries H ign (PropertyValuePair # kvs) row col keyProp valueProp pairs ps =
     (case AssignStringToPropertyDirect H (fst PropertyValuePair) keyProp (InitializeValue H keyProp) of
        (KeyError, k1) \<Rightarrow>
          if length KeyError > 0
          then (False, pairs,
                ps @ [ProblemAssigningKey (fst PropertyValuePair) col row KeyError])
          else
            (case ReadContainerEntry H ign (snd PropertyValuePair) row col (int (length pairs))
                    valueProp (InitializeValue H valueProp) ps of
               (ok, v1, ps1) \<Rightarrow>
                 if \<not> ok then (False, pairs, ps1)
                 else ReadMapEntries H ign kvs row col keyProp valueProp (pairs @ [(k1, v1)]) ps1))"
| "ReadContainerEntry H ign v row col idx p pv ps =
     (let ParsedPropertyType = JSONTypeToString (Type v) in
      case Class p of
        FEnumProperty \<Rightarrow>
          (case TryGetString H v of
             Some EnumValue \<Rightarrow>
               (case AssignStringToPropertyDirect H EnumValue p pv of
                  (Error, v1) \<Rightarrow>
                    if Error \<noteq> [] then (False, v1, ps @ [EntryInvalidEnum idx col row EnumValue])
                    else (True, v1, ps))
           | None \<Rightarrow>
               (case TryGetNumber_int64 H v of
                  None \<Rightarrow> (False, pv, ps @ [EntryIncorrectType idx col row ''Integer'' ParsedPropertyType])
                | Some PropertyValue \<Rightarrow> (True, VInt PropertyValue, ps)))
      | FNumericProperty isEnum isInteger \<Rightarrow>
          (case (if isEnum then TryGetString H v else None) of
             Some EnumValue \<Rightarrow>
               (case AssignStringToPropertyDirect H EnumValue p pv of
                  (Error, v1) \<Rightarrow>
                    if Error \<noteq> [] then (False, v1, ps @ [EntryInvalidEnum idx col row EnumValue])
                    else (True, v1, ps))
           | None \<Rightarrow>
               if isInteger then
                 (case TryGetNumber_int64 H v of
                    None \<Rightarrow> (False, pv, ps @ [EntryIncorrectType idx col row ''Integer'' ParsedPropertyType])
                  | Some PropertyValue \<Rightarrow> (True, VInt PropertyValue, ps))
               else
                 (case TryGetNumber_double H v of
                    None \<Rightarrow> (False, pv, ps @ [EntryIncorrectType idx col row ''Double'' ParsedPropertyType])
                  | Some PropertyValue \<Rightarrow> (True, VDouble PropertyValue, ps)))
      | FBoolProperty \<Rightarrow>
          (case TryGetBool H v of
             None \<Rightarrow> (False, pv, ps @ [EntryIncorrectType idx col row ''Boolean'' ParsedPropertyType])
           | Some PropertyValue \<Rightarrow> (True, VBool PropertyValue, ps))
      | FArrayProperty inner \<Rightarrow> (False, pv, ps)
      | FSetProperty elemProp \<Rightarrow> (False, pv, ps)
      | FMapProperty keyProp valueProp \<Rightarrow> (False, pv, ps)
      | FStructProperty S \<Rightarrow>
          (case TryGetObject v of
             Some PropertyValue \<Rightarrow>
               (case ReadStruct H ign PropertyValue S row (AsStruct pv) ps of
                  (ok, sd, ps1) \<Rightarrow> (ok, VStruct sd, ps1))
           | None \<Rightarrow>
               (case TryGetString H v of
                  None \<Rightarrow> (False, pv, ps @ [PropertyIncorrectType col row ''String'' ParsedPropertyType])
                | Some PropertyValueString \<Rightarrow>
                    (case AssignStringToPropertyDirect H PropertyValueString p pv of
                       (Error, v1) \<Rightarrow>
                         if Error \<noteq> []
                         then (False, v1, ps @ [ProblemAssigningStringToEntry idx PropertyValueString
                                                  col row Error])
                         else (True, v1, ps))))
      | FOtherProperty \<Rightarrow>
          (case TryGetString H v of
             None \<Rightarrow> (False, pv, ps @ [EntryIncorrectType idx col row ''String'' ParsedPropertyType])
           | Some PropertyValue \<Rightarrow>
               (case AssignStringToPropertyDirect H PropertyValue p pv of
                  (Error, v1) \<Rightarrow>
                    if Error \<noteq> []
                    then (False, v1, ps @ [ProblemAssigningStringToEntry idx PropertyValue col row Error])
                    else (True, v1, ps))))"
  by pat_completeness auto


termination
  apply (relation "measures
    [case_sum
       (case_sum
          (case_sum (\<lambda>(H, ign, obj, S, row, d, ps). size S)
                    (\<lambda>(H, ign, obj, props, row, d, ps). size_list size props))
          (case_sum (\<lambda>(H, ign, obj, p, row, d, ps). size p)
                    (\<lambda>(H, ign, vals, row, col, p, idxs, d, ps). size p)))
       (case_sum
          (case_sum (\<lambda>(H, ign, v, row, col, d, p, ps). size p)
                    (\<lambda>(H, ign, vals, row, col, inner, elems, ps). size inner))
          (case_sum (\<lambda>(H, ign, vals, row, col, elemProp, elems, ps). size elemProp)
             (case_sum (\<lambda>(H, ign, kvs, row, col, keyProp, valueProp, pairs, ps). size valueProp)
                       (\<lambda>(H, ign, v, row, col, idx, p, pv, ps). size p)))),
     case_sum
       (case_sum
          (case_sum (\<lambda>x. 0) (\<lambda>x. 0))
          (case_sum (\<lambda>(H, ign, obj, p, row, d, ps). Suc (Suc (nat (ArrayDim p))))
                    (\<lambda>(H, ign, vals, row, col, p, idxs, d, ps). Suc (length idxs))))
       (case_sum
          (case_sum (\<lambda>x. 0)
                    (\<lambda>(H, ign, vals, row, col, inner, elems, ps). Suc (length vals)))
          (case_sum (\<lambda>(H, ign, vals, row, col, elemProp, elems, ps). Suc (length vals))
             (case_sum (\<lambda>(H, ign, kvs, row, col, keyProp, valueProp, pairs, ps). Suc (length kvs))
                       (\<lambda>x. 0))))]")
  apply simp_all
  subgoal for S by (cases S) simp
  subgoal for v p by (cases p) simp
  subgoal for v p by (cases p) simp
  subgoal for v p by (cases p) simp
  subgoal for v p by (cases p) simp
  subgoal for v p by (cases p) simp
  done

declare ReadStruct.simps [simp del] ReadStruct_fields.simps [simp del]
  ReadStruct_field.simps [simp del]
  ReadStaticArray.simps [simp del] ReadStructEntry.simps [simp del]
  ReadArrayEntries.simps [simp del] ReadSetEntries.simps [simp del]
  ReadMapEntries.simps [simp del] ReadContainerEntry.simps [simp del]

subsection \<open>The row driver and the document driver\<close>

text \<open>
  \<^verbatim>\<open>ReadRow\<close> dereferences \<^verbatim>\<open>DataTable->RowStruct\<close>, which \<^verbatim>\<open>ReadTable\<close> has found to be
  there (line 70); it is the argument \<open>S\<close>. \<open>ColumnPropFound\<close> is whether \<^verbatim>\<open>ColumnProp\<close> is
  set at line 155, \<open>DetectExtraFields\<close> the loop of lines 135 to 160, and \<open>RegisterRow\<close>
  lines 131 to 170: the importer once the row is in the row map. The writes \<^verbatim>\<open>ReadStruct\<close>
  makes through \<^verbatim>\<open>RowData\<close> (line 172) go to the entry the row map holds for the row:
  \<open>StoreRowData\<close>. The table is a \<^verbatim>\<open>UGridlyDataTable\<close>, so the cast of line 169 succeeds;
  \<^verbatim>\<open>Modify(true)\<close> (line 106) marks the asset as changed and is left out.
\<close>

record FGridlyDataTableImporterJSON =
  DataTable :: UGridlyDataTable
  JSONData :: string
  ImportProblems :: "Problem list"

definition AddProblem :: "FGridlyDataTableImporterJSON \<Rightarrow> Problem \<Rightarrow> FGridlyDataTableImporterJSON" where
  "AddProblem this P = this\<lparr>ImportProblems := ImportProblems this @ [P]\<rparr>"

definition ColumnPropFound :: "Host \<Rightarrow> UScriptStruct \<Rightarrow> string \<Rightarrow> bool" where
  "ColumnPropFound H S Key =
     (find (\<lambda>p. GetFName p = MakeValidName H Key) (Properties S) \<noteq> None
      \<or> list_ex (\<lambda>p. list_ex (\<lambda>n. FString_eq n Key) (GetPropertyImportNames p)) (Properties S))"

fun DetectExtraFields :: "Host \<Rightarrow> UScriptStruct \<Rightarrow> string \<Rightarrow> FName \<Rightarrow> FJsonObject \<Rightarrow> Problem list
    \<Rightarrow> Problem list" where
  "DetectExtraFields H S RowKey RowName [] ps = ps"
| "DetectExtraFields H S RowKey RowName (ParsedPropertyKeyValuePair # kvs) ps =
     (if FString_eq (fst ParsedPropertyKeyValuePair) RowKey
      then DetectExtraFields H S RowKey RowName kvs ps
      else if ColumnPropFound H S (fst ParsedPropertyKeyValuePair)
      then DetectExtraFields H S RowKey RowName kvs ps
      else DetectExtraFields H S RowKey RowName kvs
             (ps @ [PropertyNotFoundInStruct (MakeValidName H (fst ParsedPropertyKeyValuePair))
                      RowName (GetName S)]))"

definition RegisterRow :: "Host \<Rightarrow> UScriptStruct \<Rightarrow> FGridlyDataTableImporterJSON \<Rightarrow> FJsonObject
    \<Rightarrow> FName \<Rightarrow> FGridlyDataTableImporterJSON" where
  "RegisterRow H S this obj RowName =
     (let this1 =
            (if \<not> bIgnoreExtraFields (DataTable this)
             then this\<lparr>ImportProblems :=
                    DetectExtraFields H S (GetKeyFieldName (DataTable this)) RowName obj
                      (ImportProblems this)\<rparr>
             else this);
          RowData = InitializeStruct H S
      in this1\<lparr>DataTable := AddRowInternal (DataTable this1) RowName RowData\<rparr>)"

definition ReadRow :: "Host \<Rightarrow> UScriptStruct \<Rightarrow> FGridlyDataTableImporterJSON \<Rightarrow> FJsonObject \<Rightarrow> int
    \<Rightarrow> bool \<times> FGridlyDataTableImporterJSON" where
  "ReadRow H S this obj InRowIdx =
     (let RowKey = GetKeyFieldName (DataTable this);
          RowName = MakeValidName H (GetStringField H obj RowKey)
      in if IsNone RowName
         then (False, AddProblem this (RowMissingKeyField InRowIdx RowKey))
         else if \<not> AllowDuplicateRowsOnImport (DataTable this)
                 \<and> Find (RowMap (DataTable this)) RowName \<noteq> None
         then (False, AddProblem this (DuplicateRowName RowName))
         else
           (let this2 = RegisterRow H S this obj RowName
            in case ReadStruct H (bIgnoreMissingFields (DataTable this2)) obj S RowName
                      (InitializeStruct H S) (ImportProblems this2) of
                 (ok, RowData, ps) \<Rightarrow>
                   (ok, this2\<lparr>DataTable := StoreRowData (DataTable this2) RowName RowData,
                              ImportProblems := ps\<rparr>)))"

fun ReadTable_rows :: "Host \<Rightarrow> UScriptStruct \<Rightarrow> FJsonValue list \<Rightarrow> int
    \<Rightarrow> FGridlyDataTableImporterJSON \<Rightarrow> FGridlyDataTableImporterJSON" where
  "ReadTable_rows H S [] RowIdx this = this"
| "ReadTable_rows H S (ParsedTableRowValue # rows) RowIdx this =
     (case AsObject H ParsedTableRowValue of
        None \<Rightarrow> ReadTable_rows H S rows (RowIdx + 1) (AddProblem this (RowNotValidObject RowIdx))
      | Some ParsedTableRowObject \<Rightarrow>
          (case ReadRow H S this ParsedTableRowObject RowIdx of
             (ok, this1) \<Rightarrow>
               ReadTable_rows H S rows (RowIdx + 1)
                 (if \<not> ok then AddProblem this1 (FailedToReadRow RowIdx) else this1)))"

definition ReadTable :: "Host \<Rightarrow> FGridlyDataTableImporterJSON \<Rightarrow> bool \<times> FGridlyDataTableImporterJSON" where
  "ReadTable H this =
     (if JSONData this = [] then (False, AddProblem this InputDataIsEmpty)
      else case RowStruct (DataTable this) of
        None \<Rightarrow> (False, AddProblem this NoRowStructSpecified)
      | Some S \<Rightarrow>
          (case Deserialize H (JSONData this) of
             None \<Rightarrow> (False, AddProblem this (FailedToParseJSON (GetErrorMessage H (JSONData this))))
           | Some ParsedTableRows \<Rightarrow>
               if length ParsedTableRows = 0
               then (False, AddProblem this (FailedToParseJSON (GetErrorMessage H (JSONData this))))
               else (True, ReadTable_rows H S ParsedTableRows 0
                             (this\<lparr>DataTable := EmptyTable (DataTable this)\<rparr>))))"

subsection \<open>The exporter\<close>

text \<open>
  \<^verbatim>\<open>FGridlyExporter::ConvertToJson\<close> for a data table. What it writes is the sequence of
  calls it makes on the JSON writer; \<open>Close\<close> and \<open>WrittenText\<close> are the host's answer to
  \<^verbatim>\<open>Close()\<close> and the text a writer has produced for such a sequence. \<^verbatim>\<open>checkNoEntry()\<close>
  stops the program: the result is \<open>None\<close>.
\<close>

datatype JsonWritten = WString string | WInt64 int64 | WDouble double | WBool bool

datatype JsonToken =
    WriteArrayStart
  | WriteArrayStart_id string
  | WriteArrayEnd
  | WriteObjectStart
  | WriteObjectEnd
  | WriteValue_id string JsonWritten
  | WriteValue JsonWritten
  | WriteRawJSONValue_id string string
  | WriteRawJSONValue string

type_synonym JsonWriter = "JsonToken list"

record ExportHost =
  ToString :: "FName \<Rightarrow> string"
  GetPropertyValueAsString :: "FProperty \<Rightarrow> StructData \<Rightarrow> string"
  GetElementValueAsString :: "FProperty \<Rightarrow> PropValue \<Rightarrow> string"
  GetSignedIntPropertyValue :: "FProperty \<Rightarrow> PropValue \<Rightarrow> int64"
  GetFloatingPointPropertyValue :: "FProperty \<Rightarrow> PropValue \<Rightarrow> double"
  GetPropertyValue :: "FProperty \<Rightarrow> PropValue \<Rightarrow> bool"
  UStructToFormattedJsonObjectString :: "UScriptStruct \<Rightarrow> PropValue \<Rightarrow> string"
  Close :: "JsonWriter \<Rightarrow> bool"
  WrittenText :: "JsonWriter \<Rightarrow> string"

fun ArrayHelper_elements :: "PropValue \<Rightarrow> PropValue list" where
  "ArrayHelper_elements (VArray xs) = xs"
| "ArrayHelper_elements v = []"

fun SetHelper_elements :: "PropValue \<Rightarrow> PropValue list" where
  "SetHelper_elements (VSet xs valid n) = xs"
| "SetHelper_elements v = []"

fun WriteArrayElements :: "ExportHost \<Rightarrow> FProperty \<Rightarrow> PropValue list \<Rightarrow> JsonWriter
    \<Rightarrow> JsonWriter option" where
  "WriteArrayElements E inner [] w = Some w"
| "WriteArrayElements E inner (ArrayData # xs) w =
     (case Class inner of
        FEnumProperty \<Rightarrow> None
      | FNumericProperty isEnum isInteger \<Rightarrow> None
      | FBoolProperty \<Rightarrow> None
      | FStructProperty S \<Rightarrow>
          WriteArrayElements E inner xs
            (w @ [WriteRawJSONValue (UStructToFormattedJsonObjectString E S ArrayData)])
      | _ \<Rightarrow> None)"

fun WriteSetElements :: "ExportHost \<Rightarrow> FProperty \<Rightarrow> PropValue list \<Rightarrow> JsonWriter
    \<Rightarrow> JsonWriter option" where
  "WriteSetElements E elemProp [] w = Some w"
| "WriteSetElements E elemProp (SetData # xs) w =
     (case Class elemProp of
        FEnumProperty \<Rightarrow> None
      | FNumericProperty isEnum isInteger \<Rightarrow>
          WriteSetElements E elemProp xs
            (w @ [WriteValue
                   (if isEnum then WString (GetElementValueAsString E elemProp SetData)
                    else if isInteger then WInt64 (GetSignedIntPropertyValue E elemProp SetData)
                    else WDouble (GetFloatingPointPropertyValue E elemProp SetData))])
      | FBoolProperty \<Rightarrow> None
      | FStructProperty S \<Rightarrow> None
      | _ \<Rightarrow> None)"

definition WriteCell :: "Host \<Rightarrow> ExportHost \<Rightarrow> FProperty \<Rightarrow> StructData \<Rightarrow> JsonWriter
    \<Rightarrow> JsonWriter option" where
  "WriteCell H E BaseProp RowData w =
     (let Data = ContainerPtrToValuePtr BaseProp RowData 0;
          w1 = w @ [WriteObjectStart,
                    WriteValue_id ''columnId'' (WString (GetPropertyExportName BaseProp))];
          AsString = Some (w1 @ [WriteValue_id ''value''
                                   (WString (GetPropertyValueAsString E BaseProp RowData))]);
          w2 =
            (case Class BaseProp of
               FEnumProperty \<Rightarrow> AsString
             | FNumericProperty isEnum isInteger \<Rightarrow>
                 if isEnum then AsString
                 else if isInteger
                 then Some (w1 @ [WriteValue_id ''value''
                                    (WInt64 (GetSignedIntPropertyValue E BaseProp Data))])
                 else Some (w1 @ [WriteValue_id ''value''
                                    (WDouble (GetFloatingPointPropertyValue E BaseProp Data))])
             | FBoolProperty \<Rightarrow>
                 Some (w1 @ [WriteValue_id ''value'' (WBool (GetPropertyValue E BaseProp Data))])
             | FArrayProperty inner \<Rightarrow>
                 if HS_GRIDLY_ALLOW_ARBITARY_STRUCT_IN_TABLE H then
                   (case WriteArrayElements E inner (ArrayHelper_elements Data) [WriteArrayStart] of
                      None \<Rightarrow> None
                    | Some sub \<Rightarrow>
                        if Close E (sub @ [WriteArrayEnd])
                        then Some (w1 @ [WriteValue_id ''value''
                                           (WString (WrittenText E (sub @ [WriteArrayEnd])))])
                        else Some w1)
                 else AsString
             | FSetProperty elemProp \<Rightarrow>
                 if HS_GRIDLY_ALLOW_SET_PROPERTYTYPE_IN_TABLE H then
                   (case WriteSetElements E elemProp (SetHelper_elements Data) [WriteArrayStart] of
                      None \<Rightarrow> None
                    | Some sub \<Rightarrow>
                        if Close E (sub @ [WriteArrayEnd])
                        then Some (w1 @ [WriteRawJSONValue_id ''value''
                                           (WrittenText E (sub @ [WriteArrayEnd]))])
                        else Some w1)
                 else AsString
             | _ \<Rightarrow> AsString)
      in case w2 of None \<Rightarrow> None | Some w3 \<Rightarrow> Some (w3 @ [WriteObjectEnd]))"

fun WriteCells :: "Host \<Rightarrow> ExportHost \<Rightarrow> FProperty list \<Rightarrow> StructData \<Rightarrow> JsonWriter \<times> string \<times> bool
    \<Rightarrow> (JsonWriter \<times> string \<times> bool) option" where
  "WriteCells H E [] RowData st = Some st"
| "WriteCells H E (BaseProp # props) RowData (w, PathValue, bPathFound) =
     (if FString_eq (GetPropertyExportName BaseProp) ''_path''
      then WriteCells H E props RowData (w, GetPropertyValueAsString E BaseProp RowData, True)
      else if ArrayDim BaseProp = 1
      then (case WriteCell H E BaseProp RowData w of
              None \<Rightarrow> None
            | Some w1 \<Rightarrow> WriteCells H E props RowData (w1, PathValue, bPathFound))
      else WriteCells H E props RowData (w, PathValue, bPathFound))"

definition WriteRow :: "Host \<Rightarrow> ExportHost \<Rightarrow> UScriptStruct \<Rightarrow> FName \<Rightarrow> StructData \<Rightarrow> JsonWriter
    \<Rightarrow> JsonWriter option" where
  "WriteRow H E S RowName RowData w =
     (case WriteCells H E (Properties S) RowData
             (w @ [WriteObjectStart, WriteValue_id ''id'' (WString (ToString E RowName)),
                   WriteArrayStart_id ''cells''], [], False) of
        None \<Rightarrow> None
      | Some (w1, PathValue, bPathFound) \<Rightarrow>
          Some (w1 @ [WriteArrayEnd,
                      (if bPathFound then WriteValue_id ''path'' (WString PathValue)
                       else WriteValue_id ''path'' (WString [])),
                      WriteObjectEnd]))"

fun WriteRows :: "Host \<Rightarrow> ExportHost \<Rightarrow> UScriptStruct \<Rightarrow> (FName \<times> StructData) list \<Rightarrow> FName list
    \<Rightarrow> nat list \<Rightarrow> JsonWriter \<Rightarrow> JsonWriter option" where
  "WriteRows H E S Rows Keys [] w = Some w"
| "WriteRows H E S Rows Keys (i # idxs) w =
     (let RowName = Keys ! i in
      case Find Rows RowName of
        None \<Rightarrow> None
      | Some RowData \<Rightarrow>
          (case WriteRow H E S RowName RowData w of
             None \<Rightarrow> None
           | Some w1 \<Rightarrow> WriteRows H E S Rows Keys idxs w1))"

definition ConvertToJson :: "Host \<Rightarrow> ExportHost \<Rightarrow> UGridlyDataTable \<Rightarrow> size_t \<Rightarrow> size_t
    \<Rightarrow> (bool \<times> JsonWriter) option" where
  "ConvertToJson H E GridlyDataTable StartIndex MaxSize =
     (case RowStruct GridlyDataTable of
        None \<Rightarrow> Some (False, [])
      | Some S \<Rightarrow>
          (let w = [WriteArrayStart];
               Keys = map fst (RowMap GridlyDataTable)
           in if StartIndex < word_of_nat (length Keys) then
                (let EndIndex = min (StartIndex + MaxSize) (word_of_nat (length Keys))
                 in case WriteRows H E S (RowMap GridlyDataTable) Keys
                           [unat StartIndex..<unat EndIndex] w of
                      None \<Rightarrow> None
                    | Some w1 \<Rightarrow>
                        if Close E (w1 @ [WriteArrayEnd]) then Some (True, w1 @ [WriteArrayEnd])
                        else Some (False, w1 @ [WriteArrayEnd]))
              else Some (False, w)))"

subsection \<open>What a call decodes to\<close>

text \<open>
  The outcome of each function of the struct walker when \<^verbatim>\<open>ImportProblems\<close> is empty: its
  result, the memory it leaves and the problems it reports. Lemma \<open>ReadContainerEntry_log\<close>
  and its siblings below show that on any \<^verbatim>\<open>ImportProblems\<close> the functions do the same and
  append these problems.
\<close>

definition DecodeContainerEntry :: "Host \<Rightarrow> bool \<Rightarrow> FJsonValue \<Rightarrow> FName \<Rightarrow> string \<Rightarrow> int \<Rightarrow> FProperty
    \<Rightarrow> PropValue \<Rightarrow> bool \<times> PropValue \<times> Problem list" where
  "DecodeContainerEntry H ign v row col idx p pv = ReadContainerEntry H ign v row col idx p pv []"

definition DecodeStructEntry :: "Host \<Rightarrow> bool \<Rightarrow> FJsonValue \<Rightarrow> FName \<Rightarrow> string \<Rightarrow> StructData \<Rightarrow> FProperty
    \<Rightarrow> bool \<times> StructData \<times> Problem list" where
  "DecodeStructEntry H ign v row col d p = ReadStructEntry H ign v row col d p []"

definition DecodeStruct :: "Host \<Rightarrow> bool \<Rightarrow> FJsonObject \<Rightarrow> UScriptStruct \<Rightarrow> FName \<Rightarrow> StructData
    \<Rightarrow> bool \<times> StructData \<times> Problem list" where
  "DecodeStruct H ign obj S row d = ReadStruct H ign obj S row d []"

definition DecodeFields :: "Host \<Rightarrow> bool \<Rightarrow> FJsonObject \<Rightarrow> FProperty list \<Rightarrow> FName \<Rightarrow> StructData
    \<Rightarrow> bool \<times> StructData \<times> Problem list" where
  "DecodeFields H ign obj props row d = ReadStruct_fields H ign obj props row d []"

definition DecodeField :: "Host \<Rightarrow> bool \<Rightarrow> FJsonObject \<Rightarrow> FProperty \<Rightarrow> FName \<Rightarrow> StructData
    \<Rightarrow> bool \<times> StructData \<times> Problem list" where
  "DecodeField H ign obj p row d = ReadStruct_field H ign obj p row d []"

definition DecodeStaticArray :: "Host \<Rightarrow> bool \<Rightarrow> FJsonValue list \<Rightarrow> FName \<Rightarrow> string \<Rightarrow> FProperty
    \<Rightarrow> nat list \<Rightarrow> StructData \<Rightarrow> StructData \<times> Problem list" where
  "DecodeStaticArray H ign vals row col p idxs d = ReadStaticArray H ign vals row col p idxs d []"

definition DecodeArrayEntries :: "Host \<Rightarrow> bool \<Rightarrow> FJsonValue list \<Rightarrow> FName \<Rightarrow> string \<Rightarrow> FProperty
    \<Rightarrow> PropValue list \<Rightarrow> PropValue list \<times> Problem list" where
  "DecodeArrayEntries H ign vals row col inner elems =
     ReadArrayEntries H ign vals row col inner elems []"

definition DecodeSetEntries :: "Host \<Rightarrow> bool \<Rightarrow> FJsonValue list \<Rightarrow> FName \<Rightarrow> string \<Rightarrow> FProperty
    \<Rightarrow> PropValue list \<Rightarrow> PropValue list \<times> Problem list" where
  "DecodeSetEntries H ign vals row col elemProp elems =
     ReadSetEntries H ign vals row col elemProp elems []"

definition DecodeMapEntries :: "Host \<Rightarrow> bool \<Rightarrow> (string \<times> FJsonValue) list \<Rightarrow> FName \<Rightarrow> string
    \<Rightarrow> FProperty \<Rightarrow> FProperty \<Rightarrow> (PropValue \<times> PropValue) list
    \<Rightarrow> bool \<times> (PropValue \<times> PropValue) list \<times> Problem list" where
  "DecodeMapEntries H ign kvs row col keyProp valueProp pairs =
     ReadMapEntries H ign kvs row col keyProp valueProp pairs []"

text \<open>The two entry codecs at a property only append to \<^verbatim>\<open>ImportProblems\<close>.\<close>

definition AppendsProblems :: "Host \<Rightarrow> FProperty \<Rightarrow> bool" where
  "AppendsProblems H p \<longleftrightarrow>
     (\<forall>ign v row col d ps. ReadStructEntry H ign v row col d p ps =
        apsnd (apsnd ((@) ps)) (DecodeStructEntry H ign v row col d p)) \<and>
     (\<forall>ign v row col idx pv ps. ReadContainerEntry H ign v row col idx p pv ps =
        apsnd (apsnd ((@) ps)) (DecodeContainerEntry H ign v row col idx p pv))"

subsection \<open>Notions the claims are stated with\<close>



text \<open>
  A field of static arity greater than 1 whose matched JSON value is not an array: the
  value of the first import name the row object has is there and \<open>TryGetArray\<close> fails on it.
\<close>

definition StaticArrayNotArray :: "FJsonObject \<Rightarrow> FProperty \<Rightarrow> bool" where
  "StaticArrayNotArray obj p \<longleftrightarrow>
     1 < ArrayDim p \<and>
     (case FindParsedPropertyValue obj (GetPropertyImportNames p) of
        None \<Rightarrow> False
      | Some v \<Rightarrow> TryGetArray v = None)"

text \<open>
  The declared fields the walk of a record reaches: the fields before the first field of
  static arity greater than 1 whose matched JSON value is not an array, and that field;
  all the fields when there is no such field.
\<close>

definition FieldsReached :: "FJsonObject \<Rightarrow> FProperty list \<Rightarrow> FProperty list" where
  "FieldsReached obj props =
     takeWhile (\<lambda>p. \<not> StaticArrayNotArray obj p) props
     @ take 1 (dropWhile (\<lambda>p. \<not> StaticArrayNotArray obj p) props)"






text \<open>
  The field the exporter takes out of the cells: its export name is \<^verbatim>\<open>_path\<close>. \<open>PathValueOf\<close>
  is the text the row's \<^verbatim>\<open>path\<close> is to carry: the value of that field as a string (of the
  last one, should several fields have the name), and the empty string when there is none.
\<close>

definition IsPathField :: "FProperty \<Rightarrow> bool" where
  "IsPathField p = FString_eq (GetPropertyExportName p) ''_path''"

definition PathValueOf :: "ExportHost \<Rightarrow> FProperty list \<Rightarrow> StructData \<Rightarrow> string" where
  "PathValueOf E props RowData =
     (case filter IsPathField props of
        [] \<Rightarrow> []
      | q # qs \<Rightarrow> GetPropertyValueAsString E (last (q # qs)) RowData)"

text \<open>
  The tokens \<open>row\<close> are what \<open>WriteRow\<close> writes, on its own, for the row at index \<open>i\<close> of the
  key array of the table \<open>t\<close>.
\<close>

definition ExportedRow :: "Host \<Rightarrow> ExportHost \<Rightarrow> UScriptStruct \<Rightarrow> UGridlyDataTable \<Rightarrow> nat
    \<Rightarrow> JsonToken list \<Rightarrow> bool" where
  "ExportedRow H E S t i row =
     (case Find (RowMap t) (map fst (RowMap t) ! i) of
        None \<Rightarrow> False
      | Some RowData \<Rightarrow> WriteRow H E S (map fst (RowMap t) ! i) RowData [] = Some row)"


subsection \<open>An example host and example tables\<close>

text \<open>
  A host for the examples. Its JSON coercions accept a value of the asked kind only, its
  reader knows the texts \<open>ExampleJSONData\<close> and \<^verbatim>\<open>[]\<close>, its integer coercion knows the
  number 1 (\<^verbatim>\<open>0x3FF0000000000000\<close> as a double), a fresh instance is memory nobody has
  written, and a text is imported as \<open>VText\<close> without error.
\<close>

text \<open>Reading a value of the record memory in the examples.\<close>

definition BoolOf :: "PropValue \<Rightarrow> bool option" where
  "BoolOf v = (case v of VBool b \<Rightarrow> Some b | _ \<Rightarrow> None)"

definition TextOf :: "PropValue \<Rightarrow> string option" where
  "TextOf v = (case v of VText s \<Rightarrow> Some s | _ \<Rightarrow> None)"


definition IsRaw :: "PropValue \<Rightarrow> bool" where
  "IsRaw v = (case v of VRaw \<Rightarrow> True | _ \<Rightarrow> False)"



definition Prop :: "string \<Rightarrow> int \<Rightarrow> FPropertyClass \<Rightarrow> FProperty" where
  "Prop name dim c = FProperty (Name name) name [name] False dim c"

definition ExampleRowStruct :: UScriptStruct where
  "ExampleRowStruct = UScriptStruct ''FExampleRow''
     [Prop ''Enabled'' 1 FBoolProperty,
      Prop ''Slots'' 2 FBoolProperty,
      Prop ''_path'' 1 FOtherProperty,
      Prop ''Label'' 1 FOtherProperty]"

definition ExampleRows :: "FJsonValue list" where
  "ExampleRows =
     [FJsonValueObject [(''Name'', FJsonValueString ''r0''),
                        (''Enabled'', FJsonValueBoolean True),
                        (''Slots'', FJsonValueArray [FJsonValueBoolean True, FJsonValueBoolean False]),
                        (''_path'', FJsonValueString ''ui/menu''),
                        (''Label'', FJsonValueString ''Start'')],
      FJsonValueObject [(''Name'', FJsonValueString ''r1''),
                        (''Enabled'', FJsonValueBoolean True),
                        (''Slots'', FJsonValueString ''x''),
                        (''_path'', FJsonValueString ''ui/menu''),
                        (''Label'', FJsonValueString ''Quit'')],
      FJsonValueString ''third'',
      FJsonValueObject [(''Name'', FJsonValueString ''r3''),
                        (''Enabled'', FJsonValueBoolean False),
                        (''Slots'', FJsonValueArray [FJsonValueBoolean True, FJsonValueBoolean True]),
                        (''_path'', FJsonValueString ''ui/hud''),
                        (''Label'', FJsonValueString ''Health'')]]"

definition ExampleJSONData :: string where
  "ExampleJSONData = ''rows r0, r1 (Slots is a string), a string, r3''"

definition ExampleHost :: Host where
  "ExampleHost =
     \<lparr>WITH_EDITOR = True,
      HS_GRIDLY_ALLOW_ARBITARY_STRUCT_IN_TABLE = False,
      HS_GRIDLY_ALLOW_SET_PROPERTYTYPE_IN_TABLE = False,
      Deserialize = (\<lambda>s. if s = ''[]'' then Some []
                          else if s = ExampleJSONData then Some ExampleRows else None),
      DeserializeValue = (\<lambda>s. None),
      GetErrorMessage = (\<lambda>s. ''Invalid Json Token''),
      AsObject = TryGetObject,
      GetStringField = (\<lambda>obj FieldName.
         case TryGetField obj FieldName of Some (FJsonValueString s) \<Rightarrow> s | _ \<Rightarrow> []),
      TryGetString = (\<lambda>v. case v of FJsonValueString s \<Rightarrow> Some s | _ \<Rightarrow> None),
      TryGetNumber_int64 = (\<lambda>v. case v of
         FJsonValueNumber n \<Rightarrow> if n = 0x3FF0000000000000 then Some 1 else None | _ \<Rightarrow> None),
      TryGetNumber_double = (\<lambda>v. case v of FJsonValueNumber n \<Rightarrow> Some n | _ \<Rightarrow> None),
      TryGetBool = (\<lambda>v. case v of FJsonValueBoolean b \<Rightarrow> Some b | _ \<Rightarrow> None),
      MakeValidName = (\<lambda>s. if s = [] \<or> FString_eq s ''None'' then NAME_None else Name s),
      InitializeStruct = (\<lambda>S n i. VRaw),
      InitializeValue = (\<lambda>p. VRaw),
      AssignStringToProperty = (\<lambda>s p d. ([], StoreValue p d 0 (VText s))),
      AssignStringToPropertyDirect = (\<lambda>s p v. ([], VText s))\<rparr>"


definition ExampleExportHost :: ExportHost where
  "ExampleExportHost =
     \<lparr>ToString = (\<lambda>n. case n of NAME_None \<Rightarrow> ''None'' | Name s \<Rightarrow> s),
      GetPropertyValueAsString = (\<lambda>p d. case d (GetFName p) 0 of VText s \<Rightarrow> s | _ \<Rightarrow> []),
      GetElementValueAsString = (\<lambda>p v. case v of VText s \<Rightarrow> s | _ \<Rightarrow> []),
      GetSignedIntPropertyValue = (\<lambda>p v. case v of VInt n \<Rightarrow> n | _ \<Rightarrow> 0),
      GetFloatingPointPropertyValue = (\<lambda>p v. case v of VDouble x \<Rightarrow> x | _ \<Rightarrow> 0),
      GetPropertyValue = (\<lambda>p v. case v of VBool b \<Rightarrow> b | _ \<Rightarrow> False),
      UStructToFormattedJsonObjectString = (\<lambda>S v. ''{}''),
      Close = (\<lambda>w. True),
      WrittenText = (\<lambda>w. [])\<rparr>"

definition ExampleImporter :: "string \<Rightarrow> FGridlyDataTableImporterJSON" where
  "ExampleImporter text =
     \<lparr>DataTable =
        \<lparr>RowStruct = Some ExampleRowStruct, ImportKeyField = [], bIgnoreExtraFields = False,
         bIgnoreMissingFields = False, AllowDuplicateRowsOnImport = False, RowMap = []\<rparr>,
      JSONData = text,
      ImportProblems = []\<rparr>"

definition ExampleRowData :: "bool \<Rightarrow> string \<Rightarrow> string \<Rightarrow> StructData" where
  "ExampleRowData enabled path label =
     (\<lambda>n i. if n = Name ''Enabled'' then VBool enabled
            else if n = Name ''_path'' then VText path
            else if n = Name ''Label'' then VText label
            else VRaw)"

definition ExampleTable :: UGridlyDataTable where
  "ExampleTable =
     \<lparr>RowStruct = Some ExampleRowStruct, ImportKeyField = [], bIgnoreExtraFields = False,
      bIgnoreMissingFields = False, AllowDuplicateRowsOnImport = False,
      RowMap = [(Name ''r0'', ExampleRowData True ''ui/menu'' ''Start''),
                (Name ''r3'', ExampleRowData False ''ui/hud'' ''Health'')]\<rparr>"













section \<open>The problem log is append-only\<close>

lemma AppendsProblems_container:
  "AppendsProblems H p \<Longrightarrow> ReadContainerEntry H ign v row col idx p pv ps =
        apsnd (apsnd ((@) ps)) (DecodeContainerEntry H ign v row col idx p pv)"
  by (simp add: AppendsProblems_def)

lemma AppendsProblems_struct:
  "AppendsProblems H p \<Longrightarrow> ReadStructEntry H ign v row col d p ps =
        apsnd (apsnd ((@) ps)) (DecodeStructEntry H ign v row col d p)"
  by (simp add: AppendsProblems_def)

lemma ReadArrayEntries_log_aux:
  assumes rce: "AppendsProblems H inner"
  shows "ReadArrayEntries H ign vals row col inner elems ps =
      apsnd ((@) ps) (DecodeArrayEntries H ign vals row col inner elems)"
proof (induct vals arbitrary: elems ps ign)
  case Nil
  show ?case by (simp add: ReadArrayEntries.simps DecodeArrayEntries_def)
next
  case (Cons v vals)
  show ?case
  proof -
    obtain ok v1 new where r: "DecodeContainerEntry H ign v row col (int (length elems)) inner (InitializeValue H inner) = (ok, v1, new)"
      by (metis prod_cases3)
    show ?thesis
      unfolding DecodeArrayEntries_def
      by (simp add: ReadArrayEntries.simps AppendsProblems_container [OF rce] r Cons apsnd_def map_prod_def case_prod_beta cong: if_cong)
  qed
qed

lemma ReadSetEntries_log_aux:
  assumes rce: "AppendsProblems H inner"
  shows "ReadSetEntries H ign vals row col inner elems ps =
      apsnd ((@) ps) (DecodeSetEntries H ign vals row col inner elems)"
proof (induct vals arbitrary: elems ps ign)
  case Nil
  show ?case by (simp add: ReadSetEntries.simps DecodeSetEntries_def)
next
  case (Cons v vals)
  show ?case
  proof -
    obtain ok v1 new where r: "DecodeContainerEntry H ign v row col (int (length elems)) inner (InitializeValue H inner) = (ok, v1, new)"
      by (metis prod_cases3)
    show ?thesis
      unfolding DecodeSetEntries_def
      by (simp add: ReadSetEntries.simps AppendsProblems_container [OF rce] r Cons apsnd_def map_prod_def case_prod_beta cong: if_cong)
  qed
qed

lemma ReadMapEntries_log_aux:
  assumes rce: "AppendsProblems H vp"
  shows "ReadMapEntries H ign kvs row col kp vp pairs ps =
      apsnd (apsnd ((@) ps)) (DecodeMapEntries H ign kvs row col kp vp pairs)"
proof (induct kvs arbitrary: pairs ps ign)
  case Nil
  show ?case by (simp add: ReadMapEntries.simps DecodeMapEntries_def)
next
  case (Cons kv kvs)
  show ?case
  proof -
    obtain ok v1 new where r: "DecodeContainerEntry H ign (snd kv) row col (int (length pairs)) vp (InitializeValue H vp) = (ok, v1, new)"
      by (metis prod_cases3)
    show ?thesis
      unfolding DecodeMapEntries_def
      by (simp add: ReadMapEntries.simps AppendsProblems_container [OF rce] r Cons apsnd_def map_prod_def case_prod_beta cong: if_cong)
  qed
qed

lemma ReadStaticArray_log_aux:
  assumes rce: "AppendsProblems H p"
  shows "ReadStaticArray H ign vals row col p idxs d ps =
      apsnd ((@) ps) (DecodeStaticArray H ign vals row col p idxs d)"
proof (induct idxs arbitrary: d ps ign)
  case Nil
  show ?case by (simp add: ReadStaticArray.simps DecodeStaticArray_def)
next
  case (Cons i idxs)
  show ?case
  proof -
    obtain ok v1 new where r: "DecodeContainerEntry H ign (vals ! i) row col (int i) p (ContainerPtrToValuePtr p d i) = (ok, v1, new)"
      by (metis prod_cases3)
    show ?thesis
      unfolding DecodeStaticArray_def
      by (simp add: ReadStaticArray.simps AppendsProblems_container [OF rce] r Cons apsnd_def map_prod_def case_prod_beta cong: if_cong)
  qed
qed


lemma ReadStruct_field_log_aux:
  assumes p: "AppendsProblems H p"
  shows "ReadStruct_field H ign obj p row d ps =
      apsnd (apsnd ((@) ps)) (DecodeField H ign obj p row d)"
  unfolding DecodeField_def
  by (simp add: ReadStruct_field.simps AppendsProblems_struct [OF p] ReadStaticArray_log_aux [OF p]
      Let_def apsnd_def map_prod_def case_prod_beta split: option.splits cong: if_cong)

lemma ReadStruct_fields_log_aux:
  assumes ok: "\<And>p. p \<in> set props \<Longrightarrow> AppendsProblems H p"
  shows "ReadStruct_fields H ign obj props row d ps =
      apsnd (apsnd ((@) ps)) (DecodeFields H ign obj props row d)"
  using ok
proof (induct props arbitrary: d ps)
  case Nil
  show ?case by (simp add: ReadStruct_fields.simps DecodeFields_def)
next
  case (Cons p rest)
  have p: "AppendsProblems H p" by (rule Cons.prems) simp
  have IH: "\<And>d ps. ReadStruct_fields H ign obj rest row d ps =
      apsnd (apsnd ((@) ps)) (DecodeFields H ign obj rest row d)"
    by (rule Cons.hyps) (simp add: Cons.prems)
  obtain go d1 new where r: "DecodeField H ign obj p row d = (go, d1, new)"
    by (metis prod_cases3)
  show ?case
    unfolding DecodeFields_def
    by (simp add: ReadStruct_fields.simps ReadStruct_field_log_aux [OF p] r IH
        apsnd_def map_prod_def case_prod_beta)
qed

lemma AppendsProblems_all:
  fixes p :: FProperty and c :: FPropertyClass and S :: UScriptStruct
  shows "AppendsProblems H p"
    and "\<forall>q. Class q = c \<longrightarrow> AppendsProblems H q"
    and "\<forall>ign obj row d ps. ReadStruct H ign obj S row d ps =
           apsnd (apsnd ((@) ps)) (DecodeStruct H ign obj S row d)"
proof (induct p and c and S)
  case (FProperty n e i opt dim c)
  then show ?case by simp
next
  case FEnumProperty
  show ?case
    by (simp add: AppendsProblems_def DecodeStructEntry_def DecodeContainerEntry_def
        ReadStructEntry.simps ReadContainerEntry.simps Let_def
        split: option.splits prod.splits)
next
  case (FNumericProperty e i)
  show ?case
    by (simp add: AppendsProblems_def DecodeStructEntry_def DecodeContainerEntry_def
        ReadStructEntry.simps ReadContainerEntry.simps Let_def
        split: option.splits prod.splits)
next
  case FBoolProperty
  show ?case
    by (simp add: AppendsProblems_def DecodeStructEntry_def DecodeContainerEntry_def
        ReadStructEntry.simps ReadContainerEntry.simps Let_def
        split: option.splits prod.splits)
next
  case (FArrayProperty inner)
  show ?case
    by (simp add: AppendsProblems_def DecodeStructEntry_def DecodeContainerEntry_def
        ReadStructEntry.simps ReadContainerEntry.simps Let_def
        ReadArrayEntries_log_aux [OF FArrayProperty] apsnd_def map_prod_def case_prod_beta
        split: option.splits)
next
  case (FSetProperty inner)
  show ?case
    by (simp add: AppendsProblems_def DecodeStructEntry_def DecodeContainerEntry_def
        ReadStructEntry.simps ReadContainerEntry.simps Let_def
        ReadSetEntries_log_aux [OF FSetProperty] apsnd_def map_prod_def case_prod_beta
        split: option.splits)
next
  case (FMapProperty kp vp)
  show ?case
    by (simp add: AppendsProblems_def DecodeStructEntry_def DecodeContainerEntry_def
        ReadStructEntry.simps ReadContainerEntry.simps Let_def
        ReadMapEntries_log_aux [OF FMapProperty(2)] apsnd_def map_prod_def case_prod_beta
        split: option.splits)
next
  case (FStructProperty S)
  then show ?case
    by (simp add: AppendsProblems_def DecodeStructEntry_def DecodeContainerEntry_def
        ReadStructEntry.simps ReadContainerEntry.simps Let_def
        apsnd_def map_prod_def case_prod_beta
        split: option.splits)
next
  case FOtherProperty
  show ?case
    by (simp add: AppendsProblems_def DecodeStructEntry_def DecodeContainerEntry_def
        ReadStructEntry.simps ReadContainerEntry.simps Let_def
        split: option.splits prod.splits)
next
  case (UScriptStruct name props)
  show ?case
    by (simp add: ReadStruct.simps DecodeStruct_def
        ReadStruct_fields_log_aux [OF UScriptStruct, of props]
        apsnd_def map_prod_def case_prod_beta)
qed


lemma ReadStructEntry_log:
  "ReadStructEntry H ign v row col d p ps =
     apsnd (apsnd ((@) ps)) (DecodeStructEntry H ign v row col d p)"
  by (rule AppendsProblems_struct [OF AppendsProblems_all(1)])


lemma ReadStruct_field_log:
  "ReadStruct_field H ign obj p row d ps =
     apsnd (apsnd ((@) ps)) (DecodeField H ign obj p row d)"
  by (rule ReadStruct_field_log_aux [OF AppendsProblems_all(1)])

lemma ReadStruct_fields_log:
  "ReadStruct_fields H ign obj props row d ps =
     apsnd (apsnd ((@) ps)) (DecodeFields H ign obj props row d)"
  by (rule ReadStruct_fields_log_aux) (rule AppendsProblems_all(1))

lemma ReadStaticArray_log:
  "ReadStaticArray H ign vals row col p idxs d ps =
     apsnd ((@) ps) (DecodeStaticArray H ign vals row col p idxs d)"
  by (rule ReadStaticArray_log_aux [OF AppendsProblems_all(1)])




section \<open>The exporter\<close>

subsection \<open>Pagination: a start index past the last row\<close>

lemma unat_word_of_nat_le: "unat (word_of_nat n :: size_t) \<le> n"
  by (simp add: unat_of_nat)

theorem ConvertToJson_past_rows_example:
  "RowStruct ExampleTable \<noteq> None \<and> length (RowMap ExampleTable) \<le> unat (20 :: size_t) \<and>
   ConvertToJson ExampleHost ExampleExportHost ExampleTable 20 3 = Some (False, [WriteArrayStart])"
  by code_simp

text \<open>
  Claim C1, as amended. For a table whose \<^verbatim>\<open>RowStruct\<close> is not null and a \<^verbatim>\<open>StartIndex\<close> that is
  at least the number of rows, \<open>ConvertToJson\<close> returns false and writes no row: the test
  \<^verbatim>\<open>StartIndex < Keys.Num()\<close> fails and the function falls through to \<^verbatim>\<open>return false\<close>.
  The example above is the table of two rows with \<^verbatim>\<open>StartIndex = 20\<close>: the result is false and
  the output is not an empty array.
\<close>

theorem ConvertToJson_past_rows:
  assumes "RowStruct GridlyDataTable = Some S"
    and "length (RowMap GridlyDataTable) \<le> unat StartIndex"
  shows "\<exists>w. ConvertToJson H E GridlyDataTable StartIndex MaxSize = Some (False, w)
           \<and> WriteObjectStart \<notin> set w"
proof -
  have "unat (word_of_nat (length (RowMap GridlyDataTable)) :: size_t) \<le> unat StartIndex"
    using assms(2) unat_word_of_nat_le [of "length (RowMap GridlyDataTable)"] by linarith
  then have "\<not> StartIndex < word_of_nat (length (RowMap GridlyDataTable))"
    by (simp add: word_less_nat_alt)
  then show ?thesis
    using assms(1) by (simp add: ConvertToJson_def)
qed

theorem ConvertToJson_past_rows_witness:
  "RowStruct ExampleTable = Some ExampleRowStruct \<and>
   length (RowMap ExampleTable) \<le> unat (2 :: size_t) \<and>
   (\<exists>w. ConvertToJson ExampleHost ExampleExportHost ExampleTable 2 5 = Some (False, w)
        \<and> WriteObjectStart \<notin> set w)"
proof -
  have h1: "RowStruct ExampleTable = Some ExampleRowStruct" by code_simp
  have h2: "length (RowMap ExampleTable) \<le> unat (2 :: size_t)" by code_simp
  from ConvertToJson_past_rows [OF h1 h2] h1 h2 show ?thesis by blast
qed


subsection \<open>The path of a row\<close>


lemma WriteCell_tokens:
  assumes "WriteCell H E p RowData w = Some w1"
  shows "\<exists>c. w1 = w @ c \<and>
           (\<forall>s. WriteValue_id ''columnId'' (WString s) \<in> set c \<longrightarrow> s = GetPropertyExportName p)"
  using assms
  by (cases "Class p")
     (auto simp add: WriteCell_def Let_def split: option.splits if_splits)

lemma WriteCell_total:
  assumes "\<not> HS_GRIDLY_ALLOW_ARBITARY_STRUCT_IN_TABLE H"
    and "\<not> HS_GRIDLY_ALLOW_SET_PROPERTYTYPE_IN_TABLE H"
  shows "WriteCell H E p RowData w \<noteq> None"
  using assms
  by (cases "Class p") (auto simp add: WriteCell_def Let_def)

lemma WriteCells_tokens:
  assumes "WriteCells H E props RowData (w, pv, f) = Some (w', pv', f')"
  shows "\<exists>cells. w' = w @ cells
           \<and> (\<forall>s. FString_eq s ''_path'' \<longrightarrow> WriteValue_id ''columnId'' (WString s) \<notin> set cells)
           \<and> (pv', f') = (case filter IsPathField props of
                            [] \<Rightarrow> (pv, f)
                          | q # qs \<Rightarrow> (GetPropertyValueAsString E (last (q # qs)) RowData, True))"
  using assms
proof (induct props arbitrary: w pv f)
  case Nil
  then show ?case by simp
next
  case (Cons p props)
  show ?case
  proof (cases "FString_eq (GetPropertyExportName p) ''_path''")
    case True
    with Cons.prems have "WriteCells H E props RowData
        (w, GetPropertyValueAsString E p RowData, True) = Some (w', pv', f')"
      by simp
    moreover have "filter IsPathField (p # props) = p # filter IsPathField props"
      using True by (simp add: IsPathField_def)
    ultimately show ?thesis
      using Cons.hyps [of w "GetPropertyValueAsString E p RowData" True]
      by (auto split: list.splits)
  next
    case False
    note np = False
    have fp: "filter IsPathField (p # props) = filter IsPathField props"
      using np by (simp add: IsPathField_def)
    show ?thesis
    proof (cases "ArrayDim p = 1")
      case False
      with np Cons.prems have "WriteCells H E props RowData (w, pv, f) = Some (w', pv', f')"
        by simp
      from Cons.hyps [OF this] show ?thesis
        unfolding fp .
    next
      case True
      with np Cons.prems obtain w1 where c: "WriteCell H E p RowData w = Some w1"
        and r: "WriteCells H E props RowData (w1, pv, f) = Some (w', pv', f')"
        by (auto split: option.splits)
      from WriteCell_tokens [OF c] obtain c1 where c1: "w1 = w @ c1"
        and n1: "\<forall>s. WriteValue_id ''columnId'' (WString s) \<in> set c1 \<longrightarrow> s = GetPropertyExportName p"
        by blast
      from Cons.hyps [OF r] obtain cells where c2: "w' = w1 @ cells"
        and n2: "\<forall>s. FString_eq s ''_path'' \<longrightarrow> WriteValue_id ''columnId'' (WString s) \<notin> set cells"
        and pf: "(pv', f') = (case filter IsPathField props of
                            [] \<Rightarrow> (pv, f)
                          | q # qs \<Rightarrow> (GetPropertyValueAsString E (last (q # qs)) RowData, True))"
        by blast
      have "w' = w @ (c1 @ cells)" using c1 c2 by simp
      moreover have "\<forall>s. FString_eq s ''_path'' \<longrightarrow>
          WriteValue_id ''columnId'' (WString s) \<notin> set (c1 @ cells)"
        using n1 n2 np by auto
      ultimately show ?thesis
        using pf unfolding fp by blast
    qed
  qed
qed

lemma WriteCells_total:
  assumes "\<not> HS_GRIDLY_ALLOW_ARBITARY_STRUCT_IN_TABLE H"
    and "\<not> HS_GRIDLY_ALLOW_SET_PROPERTYTYPE_IN_TABLE H"
  shows "WriteCells H E props RowData (w, pv, f) \<noteq> None"
proof (induct props arbitrary: w pv f)
  case Nil
  show ?case by simp
next
  case (Cons p props)
  obtain w1 where "WriteCell H E p RowData w = Some w1"
    using WriteCell_total [OF assms, of E p RowData w] by auto
  then show ?case
    using Cons by simp
qed

lemma WriteCell_prefix:
  "WriteCell H E p RowData w = map_option ((@) w) (WriteCell H E p RowData [])"
  by (cases "Class p") (simp_all add: WriteCell_def Let_def split: option.splits)

lemma WriteCells_prefix:
  "WriteCells H E props RowData (w, pv, f) =
     map_option (apfst ((@) w)) (WriteCells H E props RowData ([], pv, f))"
proof (induct props arbitrary: w pv f)
  case Nil
  show ?case by simp
next
  case (Cons p props)
  show ?case
  proof (cases "WriteCell H E p RowData []")
    case None
    then show ?thesis
      using Cons [of w] by (simp add: WriteCell_prefix [of H E p RowData w])
  next
    case (Some c0)
    have 1: "WriteCells H E props RowData (w @ c0, pv, f) =
        map_option (apfst ((@) (w @ c0))) (WriteCells H E props RowData ([], pv, f))"
      by (rule Cons)
    have 2: "WriteCells H E props RowData (c0, pv, f) =
        map_option (apfst ((@) c0)) (WriteCells H E props RowData ([], pv, f))"
      by (rule Cons)
    have 3: "WriteCells H E props RowData (w @ c0, pv, f) =
        map_option (apfst ((@) w)) (WriteCells H E props RowData (c0, pv, f))"
      unfolding 1 2 by (cases "WriteCells H E props RowData ([], pv, f)") auto
    show ?thesis
      using Some Cons [of w] 3 by (simp add: WriteCell_prefix [of H E p RowData w])
  qed
qed

lemma WriteRow_prefix:
  "WriteRow H E S RowName RowData w = map_option ((@) w) (WriteRow H E S RowName RowData [])"
proof -
  define hdr where "hdr = [WriteObjectStart, WriteValue_id ''id'' (WString (ToString E RowName)),
      WriteArrayStart_id ''cells'']"
  have 1: "WriteCells H E (Properties S) RowData (w @ hdr, [], False) =
      map_option (apfst ((@) (w @ hdr))) (WriteCells H E (Properties S) RowData ([], [], False))"
    by (rule WriteCells_prefix)
  have 2: "WriteCells H E (Properties S) RowData (hdr, [], False) =
      map_option (apfst ((@) hdr)) (WriteCells H E (Properties S) RowData ([], [], False))"
    by (rule WriteCells_prefix)
  show ?thesis
    unfolding WriteRow_def append_Nil hdr_def [symmetric] 1 2
    by (cases "WriteCells H E (Properties S) RowData ([], [], False)") auto
qed

lemma WriteRows_concat:
  assumes "WriteRows H E S (RowMap t) (map fst (RowMap t)) idxs w = Some w'"
  shows "\<exists>rows. w' = w @ concat rows \<and> list_all2 (ExportedRow H E S t) idxs rows"
  using assms
proof (induct idxs arbitrary: w)
  case Nil
  then show ?case by simp
next
  case (Cons i idxs)
  from Cons.prems obtain RowData w1 where
    f: "Find (RowMap t) (map fst (RowMap t) ! i) = Some RowData"
    and r: "WriteRow H E S (map fst (RowMap t) ! i) RowData w = Some w1"
    and rest: "WriteRows H E S (RowMap t) (map fst (RowMap t)) idxs w1 = Some w'"
    by (auto simp add: Let_def split: option.splits)
  from r obtain row where row: "WriteRow H E S (map fst (RowMap t) ! i) RowData [] = Some row"
    and w1: "w1 = w @ row"
    by (subst (asm) WriteRow_prefix) auto
  from Cons.hyps [OF rest] obtain rows where
    w': "w' = w1 @ concat rows" and all: "list_all2 (ExportedRow H E S t) idxs rows"
    by blast
  have "w' = w @ concat (row # rows)"
    using w' w1 by simp
  moreover have "list_all2 (ExportedRow H E S t) (i # idxs) (row # rows)"
    using all f row by (simp add: ExportedRow_def)
  ultimately show ?case by blast
qed

lemma ConvertToJson_rows:
  assumes "RowStruct t = Some S"
    and "StartIndex < word_of_nat (length (RowMap t))"
    and "ConvertToJson H E t StartIndex MaxSize = Some (ok, out)"
  shows "\<exists>rows. out = [WriteArrayStart] @ concat rows @ [WriteArrayEnd]
           \<and> list_all2 (ExportedRow H E S t)
                [unat StartIndex..<unat (min (StartIndex + MaxSize) (word_of_nat (length (RowMap t))))]
                rows
           \<and> ok = Close E out"
proof -
  from assms obtain w1 where
    w: "WriteRows H E S (RowMap t) (map fst (RowMap t))
          [unat StartIndex..<unat (min (StartIndex + MaxSize) (word_of_nat (length (RowMap t))))]
          [WriteArrayStart] = Some w1"
    and out: "out = w1 @ [WriteArrayEnd]" and ok: "ok = Close E (w1 @ [WriteArrayEnd])"
    by (auto simp add: ConvertToJson_def Let_def split: option.splits if_splits)
  from WriteRows_concat [OF w] obtain rows where
    "w1 = [WriteArrayStart] @ concat rows"
    and "list_all2 (ExportedRow H E S t)
                [unat StartIndex..<unat (min (StartIndex + MaxSize) (word_of_nat (length (RowMap t))))]
                rows"
    by blast
  then show ?thesis
    using out ok by auto
qed

lemma WriteRow_tokens:
  "case WriteRow H E S RowName RowData w of
     None \<Rightarrow> HS_GRIDLY_ALLOW_ARBITARY_STRUCT_IN_TABLE H \<or> HS_GRIDLY_ALLOW_SET_PROPERTYTYPE_IN_TABLE H
   | Some w' \<Rightarrow>
       (\<exists>cells.
          w' = w @ [WriteObjectStart, WriteValue_id ''id'' (WString (ToString E RowName)),
                    WriteArrayStart_id ''cells'']
                 @ cells
                 @ [WriteArrayEnd,
                    WriteValue_id ''path'' (WString (PathValueOf E (Properties S) RowData)),
                    WriteObjectEnd]
          \<and> (\<forall>s. FString_eq s ''_path'' \<longrightarrow> WriteValue_id ''columnId'' (WString s) \<notin> set cells))
       \<and> (filter IsPathField (Properties S) = [] \<longrightarrow> PathValueOf E (Properties S) RowData = [])
       \<and> (\<forall>p. filter IsPathField (Properties S) = [p] \<longrightarrow>
             PathValueOf E (Properties S) RowData = GetPropertyValueAsString E p RowData)"
proof (cases "WriteRow H E S RowName RowData w")
  case None
  then have "WriteCells H E (Properties S) RowData
      (w @ [WriteObjectStart, WriteValue_id ''id'' (WString (ToString E RowName)),
            WriteArrayStart_id ''cells''], [], False) = None"
    by (auto simp add: WriteRow_def split: option.splits prod.splits)
  then have "HS_GRIDLY_ALLOW_ARBITARY_STRUCT_IN_TABLE H \<or> HS_GRIDLY_ALLOW_SET_PROPERTYTYPE_IN_TABLE H"
    using WriteCells_total [of H E "Properties S" RowData] by blast
  with None show ?thesis by simp
next
  case (Some w')
  then obtain w1 pv f where c: "WriteCells H E (Properties S) RowData
      (w @ [WriteObjectStart, WriteValue_id ''id'' (WString (ToString E RowName)),
            WriteArrayStart_id ''cells''], [], False) = Some (w1, pv, f)"
    and w': "w' = w1 @ [WriteArrayEnd,
                      (if f then WriteValue_id ''path'' (WString pv)
                       else WriteValue_id ''path'' (WString [])),
                      WriteObjectEnd]"
    by (auto simp add: WriteRow_def split: option.splits prod.splits)
  from WriteCells_tokens [OF c] obtain cells where
    w1: "w1 = (w @ [WriteObjectStart, WriteValue_id ''id'' (WString (ToString E RowName)),
            WriteArrayStart_id ''cells'']) @ cells"
    and n: "\<forall>s. FString_eq s ''_path'' \<longrightarrow> WriteValue_id ''columnId'' (WString s) \<notin> set cells"
    and pf: "(pv, f) = (case filter IsPathField (Properties S) of
                            [] \<Rightarrow> ([], False)
                          | q # qs \<Rightarrow> (GetPropertyValueAsString E (last (q # qs)) RowData, True))"
    by blast
  have path: "(if f then WriteValue_id ''path'' (WString pv)
                       else WriteValue_id ''path'' (WString [])) =
      WriteValue_id ''path'' (WString (PathValueOf E (Properties S) RowData))"
    using pf by (auto simp add: PathValueOf_def split: list.splits)
  have "w' = w @ [WriteObjectStart, WriteValue_id ''id'' (WString (ToString E RowName)),
                    WriteArrayStart_id ''cells'']
                 @ cells
                 @ [WriteArrayEnd,
                    WriteValue_id ''path'' (WString (PathValueOf E (Properties S) RowData)),
                    WriteObjectEnd]"
    using w' w1 path by simp
  with n Some show ?thesis
    by (auto simp add: PathValueOf_def)
qed

text \<open>
  Claim C9. \<open>WriteRow\<close> is what \<open>ConvertToJson\<close> does for one row (lines 200 to 409). Unless
  it stops on a \<^verbatim>\<open>checkNoEntry()\<close>, which takes one of the two switches
  \<^verbatim>\<open>HS_GRIDLY_ALLOW_...\<close>, it writes the row object as: the \<^verbatim>\<open>id\<close>, the array \<^verbatim>\<open>cells\<close>, and
  after the array the property \<^verbatim>\<open>path\<close>, a sibling of \<^verbatim>\<open>cells\<close>. No cell of the array has a
  \<^verbatim>\<open>columnId\<close> that is \<^verbatim>\<open>_path\<close>. The \<^verbatim>\<open>path\<close> is the empty string when no field has the
  export name \<^verbatim>\<open>_path\<close>, and the value of that field as a string when one field has it.

  This holds for every row of an export: when \<open>StartIndex\<close> is within the rows, what
  \<open>ConvertToJson\<close> writes is the start of an array, then for each index from \<open>StartIndex\<close> to
  the end index, in order, the tokens \<open>WriteRow\<close> writes for the row at that index, then the
  end of the array; and it returns what \<^verbatim>\<open>Close\<close> returns.
\<close>

theorem WriteRow_path:
  "(case WriteRow H E S RowName RowData w of
     None \<Rightarrow> HS_GRIDLY_ALLOW_ARBITARY_STRUCT_IN_TABLE H \<or> HS_GRIDLY_ALLOW_SET_PROPERTYTYPE_IN_TABLE H
   | Some w' \<Rightarrow>
       (\<exists>cells.
          w' = w @ [WriteObjectStart, WriteValue_id ''id'' (WString (ToString E RowName)),
                    WriteArrayStart_id ''cells'']
                 @ cells
                 @ [WriteArrayEnd,
                    WriteValue_id ''path'' (WString (PathValueOf E (Properties S) RowData)),
                    WriteObjectEnd]
          \<and> (\<forall>s. FString_eq s ''_path'' \<longrightarrow> WriteValue_id ''columnId'' (WString s) \<notin> set cells))
       \<and> (filter IsPathField (Properties S) = [] \<longrightarrow> PathValueOf E (Properties S) RowData = [])
       \<and> (\<forall>p. filter IsPathField (Properties S) = [p] \<longrightarrow>
             PathValueOf E (Properties S) RowData = GetPropertyValueAsString E p RowData))
   \<and> (\<forall>ok out. RowStruct t = Some S \<longrightarrow> StartIndex < word_of_nat (length (RowMap t)) \<longrightarrow>
         ConvertToJson H E t StartIndex MaxSize = Some (ok, out) \<longrightarrow>
         (\<exists>rows. out = [WriteArrayStart] @ concat rows @ [WriteArrayEnd]
            \<and> list_all2 (ExportedRow H E S t)
                 [unat StartIndex..<unat (min (StartIndex + MaxSize) (word_of_nat (length (RowMap t))))]
                 rows
            \<and> ok = Close E out))"
  by (rule conjI [OF WriteRow_tokens]) (blast intro: ConvertToJson_rows)

theorem WriteRow_path_witness:
  "WriteRow ExampleHost ExampleExportHost ExampleRowStruct (Name ''r0'')
     (ExampleRowData True ''ui/menu'' ''Start'') [] =
     Some [WriteObjectStart, WriteValue_id ''id'' (WString ''r0''), WriteArrayStart_id ''cells'',
           WriteObjectStart, WriteValue_id ''columnId'' (WString ''Enabled''),
           WriteValue_id ''value'' (WBool True), WriteObjectEnd,
           WriteObjectStart, WriteValue_id ''columnId'' (WString ''Label''),
           WriteValue_id ''value'' (WString ''Start''), WriteObjectEnd,
           WriteArrayEnd, WriteValue_id ''path'' (WString ''ui/menu''), WriteObjectEnd]
   \<and> PathValueOf ExampleExportHost (Properties ExampleRowStruct)
        (ExampleRowData True ''ui/menu'' ''Start'') = ''ui/menu''
   \<and> WriteRow ExampleHost ExampleExportHost (UScriptStruct ''FNoPath'' [Prop ''Label'' 1 FOtherProperty])
        (Name ''r0'') (ExampleRowData True ''ui/menu'' ''Start'') [] =
       Some [WriteObjectStart, WriteValue_id ''id'' (WString ''r0''), WriteArrayStart_id ''cells'',
             WriteObjectStart, WriteValue_id ''columnId'' (WString ''Label''),
             WriteValue_id ''value'' (WString ''Start''), WriteObjectEnd,
             WriteArrayEnd, WriteValue_id ''path'' (WString []), WriteObjectEnd]
   \<and> PathValueOf ExampleExportHost (Properties (UScriptStruct ''FNoPath'' [Prop ''Label'' 1 FOtherProperty]))
        (ExampleRowData True ''ui/menu'' ''Start'') = []
   \<and> (\<exists>rows. ConvertToJson ExampleHost ExampleExportHost ExampleTable 0 5 =
                Some (True, [WriteArrayStart] @ concat rows @ [WriteArrayEnd])
          \<and> list_all2 (ExportedRow ExampleHost ExampleExportHost ExampleRowStruct ExampleTable)
               [0, 1] rows)"
proof -
  define d where "d = ExampleRowData True ''ui/menu'' ''Start''"
  have e1: "WriteRow ExampleHost ExampleExportHost ExampleRowStruct (Name ''r0'') d [] =
     Some [WriteObjectStart, WriteValue_id ''id'' (WString ''r0''), WriteArrayStart_id ''cells'',
           WriteObjectStart, WriteValue_id ''columnId'' (WString ''Enabled''),
           WriteValue_id ''value'' (WBool True), WriteObjectEnd,
           WriteObjectStart, WriteValue_id ''columnId'' (WString ''Label''),
           WriteValue_id ''value'' (WString ''Start''), WriteObjectEnd,
           WriteArrayEnd, WriteValue_id ''path'' (WString ''ui/menu''), WriteObjectEnd]"
    unfolding d_def by code_simp
  have e2: "WriteRow ExampleHost ExampleExportHost
      (UScriptStruct ''FNoPath'' [Prop ''Label'' 1 FOtherProperty]) (Name ''r0'') d [] =
       Some [WriteObjectStart, WriteValue_id ''id'' (WString ''r0''), WriteArrayStart_id ''cells'',
             WriteObjectStart, WriteValue_id ''columnId'' (WString ''Label''),
             WriteValue_id ''value'' (WString ''Start''), WriteObjectEnd,
             WriteArrayEnd, WriteValue_id ''path'' (WString []), WriteObjectEnd]"
    unfolding d_def by code_simp
  have f1: "filter IsPathField (Properties ExampleRowStruct) = [Prop ''_path'' 1 FOtherProperty]"
    by code_simp
  have f2: "filter IsPathField (Properties (UScriptStruct ''FNoPath'' [Prop ''Label'' 1 FOtherProperty])) = []"
    by code_simp
  have g: "GetPropertyValueAsString ExampleExportHost (Prop ''_path'' 1 FOtherProperty) d = ''ui/menu''"
    unfolding d_def by code_simp
  define out where "out =
     [WriteArrayStart,
      WriteObjectStart, WriteValue_id ''id'' (WString ''r0''), WriteArrayStart_id ''cells'',
      WriteObjectStart, WriteValue_id ''columnId'' (WString ''Enabled''),
      WriteValue_id ''value'' (WBool True), WriteObjectEnd,
      WriteObjectStart, WriteValue_id ''columnId'' (WString ''Label''),
      WriteValue_id ''value'' (WString ''Start''), WriteObjectEnd,
      WriteArrayEnd, WriteValue_id ''path'' (WString ''ui/menu''), WriteObjectEnd,
      WriteObjectStart, WriteValue_id ''id'' (WString ''r3''), WriteArrayStart_id ''cells'',
      WriteObjectStart, WriteValue_id ''columnId'' (WString ''Enabled''),
      WriteValue_id ''value'' (WBool False), WriteObjectEnd,
      WriteObjectStart, WriteValue_id ''columnId'' (WString ''Label''),
      WriteValue_id ''value'' (WString ''Health''), WriteObjectEnd,
      WriteArrayEnd, WriteValue_id ''path'' (WString ''ui/hud''), WriteObjectEnd,
      WriteArrayEnd]"
  have cv: "ConvertToJson ExampleHost ExampleExportHost ExampleTable 0 5 = Some (True, out)"
    unfolding out_def by code_simp
  have h1: "RowStruct ExampleTable = Some ExampleRowStruct" by code_simp
  have h2: "(0 :: size_t) < word_of_nat (length (RowMap ExampleTable))" by code_simp
  have h3: "[unat (0 :: size_t)..<unat (min (0 + 5) (word_of_nat (length (RowMap ExampleTable)) :: size_t))] =
      [0, 1]"
    by code_simp
  note t1 = WriteRow_path [where H = ExampleHost and E = ExampleExportHost and S = ExampleRowStruct
      and RowName = "Name ''r0''" and RowData = d and w = "[]" and t = ExampleTable
      and StartIndex = 0 and MaxSize = 5, unfolded e1 option.case h3]
  from t1 h1 h2 cv have p3: "\<exists>rows. out = [WriteArrayStart] @ concat rows @ [WriteArrayEnd]
      \<and> list_all2 (ExportedRow ExampleHost ExampleExportHost ExampleRowStruct ExampleTable) [0, 1] rows"
    by blast
  from t1 have "\<forall>p. filter IsPathField (Properties ExampleRowStruct) = [p] \<longrightarrow>
      PathValueOf ExampleExportHost (Properties ExampleRowStruct) d =
        GetPropertyValueAsString ExampleExportHost p d"
    by blast
  with f1 g have p1: "PathValueOf ExampleExportHost (Properties ExampleRowStruct) d = ''ui/menu''"
    by simp
  note t2 = WriteRow_path [where H = ExampleHost and E = ExampleExportHost
      and S = "UScriptStruct ''FNoPath'' [Prop ''Label'' 1 FOtherProperty]"
      and RowName = "Name ''r0''" and RowData = d and w = "[]" and t = ExampleTable
      and StartIndex = 0 and MaxSize = 5, unfolded e2 option.case]
  from t2 f2 have p2: "PathValueOf ExampleExportHost
      (Properties (UScriptStruct ''FNoPath'' [Prop ''Label'' 1 FOtherProperty])) d = []"
    by blast
  from e1 e2 p1 p2 p3 cv show ?thesis
    unfolding d_def by simp
qed


section \<open>The document driver\<close>

subsection \<open>When \<open>ReadTable\<close> fails\<close>

theorem ReadTable_empty_array_example:
  "JSONData (ExampleImporter ''[]'') \<noteq> [] \<and>
   RowStruct (DataTable (ExampleImporter ''[]'')) \<noteq> None \<and>
   Deserialize ExampleHost (JSONData (ExampleImporter ''[]'')) = Some [] \<and>
   fst (ReadTable ExampleHost (ExampleImporter ''[]'')) = False"
  by code_simp

text \<open>
  Claim C2, as amended. \<open>ReadTable\<close> returns false exactly when the input text is empty, the
  \<^verbatim>\<open>RowStruct\<close> is null, \<^verbatim>\<open>FJsonSerializer::Deserialize\<close> fails, or it succeeds with an array
  of no elements (the test \<^verbatim>\<open>ParsedTableRows.Num() == 0\<close> of line 79); on every other input
  it returns true, whatever happens to the rows. The example above is the text \<^verbatim>\<open>[]\<close>: it is
  not empty, the \<^verbatim>\<open>RowStruct\<close> is there and the parse succeeds, and \<open>ReadTable\<close> returns false.
\<close>

theorem ReadTable_false_iff:
  "fst (ReadTable H this) = False \<longleftrightarrow>
     (JSONData this = [] \<or> RowStruct (DataTable this) = None
      \<or> Deserialize H (JSONData this) = None \<or> Deserialize H (JSONData this) = Some [])"
  by (simp add: ReadTable_def split: option.splits)

theorem ReadTable_false_iff_witness:
  "fst (ReadTable ExampleHost (ExampleImporter ExampleJSONData)) = True \<and>
   FailedToReadRow 1 \<in> set (ImportProblems (snd (ReadTable ExampleHost (ExampleImporter ExampleJSONData)))) \<and>
   RowNotValidObject 2 \<in> set (ImportProblems (snd (ReadTable ExampleHost (ExampleImporter ExampleJSONData))))"
proof -
  have h: "\<not> (JSONData (ExampleImporter ExampleJSONData) = []
      \<or> RowStruct (DataTable (ExampleImporter ExampleJSONData)) = None
      \<or> Deserialize ExampleHost (JSONData (ExampleImporter ExampleJSONData)) = None
      \<or> Deserialize ExampleHost (JSONData (ExampleImporter ExampleJSONData)) = Some [])"
    by code_simp
  have p: "ImportProblems (snd (ReadTable ExampleHost (ExampleImporter ExampleJSONData))) =
      [PropertyIncorrectType ''Slots'' (Name ''r1'') ''Array'' ''String'',
       FailedToReadRow 1, RowNotValidObject 2]"
    by code_simp
  from h ReadTable_false_iff [of ExampleHost "ExampleImporter ExampleJSONData"]
  have "fst (ReadTable ExampleHost (ExampleImporter ExampleJSONData)) = True" by blast
  with p show ?thesis by simp
qed


subsection \<open>One element at a time\<close>


















section \<open>The row driver\<close>

lemma Find_Add_same: "Find (Add m k d) k = Some d"
  by (induct m)auto

lemma map_fst_Add_Add: "map fst (Add (Add m k d) k d') = map fst (Add m k d)"
  by (induct m) auto

lemma DataTable_RegisterRow:
  "DataTable (RegisterRow H S this obj RowName) =
     AddRowInternal (DataTable this) RowName (InitializeStruct H S)"
  by (simp add: RegisterRow_def Let_def)

text \<open>
  Claim C4. For a row that passes the key check and the duplicate check, let \<open>this2\<close> be the
  importer when \<^verbatim>\<open>AddRowInternal\<close> has run (line 170), and let \<^verbatim>\<open>ReadStruct\<close>, started on the
  fresh instance with the problems of \<open>this2\<close>, return \<open>ok\<close> with the memory \<open>RowData\<close>. Then
  \<^item> in \<open>this2\<close>, before any field is populated, the row map holds the fresh instance for the
    row name;
  \<^item> \<open>ReadRow\<close> returns \<open>ok\<close>, and in the importer it leaves the row map holds \<open>RowData\<close> for
    the row name and has the keys it had in \<open>this2\<close>: also when \<open>ok\<close> is false the row is
    still there, with the fields \<^verbatim>\<open>ReadStruct\<close> has populated up to where it stopped.
\<close>

theorem ReadRow_registers_before_populating:
  assumes "RowName = MakeValidName H (GetStringField H obj (GetKeyFieldName (DataTable this)))"
    and "\<not> IsNone RowName"
    and "AllowDuplicateRowsOnImport (DataTable this) \<or> Find (RowMap (DataTable this)) RowName = None"
    and "this2 = RegisterRow H S this obj RowName"
    and "ReadStruct H (bIgnoreMissingFields (DataTable this2)) obj S RowName
           (InitializeStruct H S) (ImportProblems this2) = (ok, RowData, ps)"
  shows "Find (RowMap (DataTable this2)) RowName = Some (InitializeStruct H S)
       \<and> fst (ReadRow H S this obj InRowIdx) = ok
       \<and> ImportProblems (snd (ReadRow H S this obj InRowIdx)) = ps
       \<and> Find (RowMap (DataTable (snd (ReadRow H S this obj InRowIdx)))) RowName = Some RowData
       \<and> map fst (RowMap (DataTable (snd (ReadRow H S this obj InRowIdx)))) =
           map fst (RowMap (DataTable this2))"
proof -
  have reg: "Find (RowMap (DataTable this2)) RowName = Some (InitializeStruct H S)"
    by (simp add: assms(4) DataTable_RegisterRow AddRowInternal_def Find_Add_same)
  have row: "ReadRow H S this obj InRowIdx =
      (ok, this2\<lparr>DataTable := StoreRowData (DataTable this2) RowName RowData,
                 ImportProblems := ps\<rparr>)"
    using assms(2,3,5) unfolding assms(1,4)
    by (auto simp add: ReadRow_def Let_def)
  show ?thesis
    unfolding row
    by (simp add: reg StoreRowData_def Find_Add_same)
       (simp add: assms(4) DataTable_RegisterRow AddRowInternal_def map_fst_Add_Add)
qed

theorem ReadRow_registers_before_populating_witness:
  "\<not> IsNone (Name ''r1'')
   \<and> Find (RowMap (DataTable (RegisterRow ExampleHost ExampleRowStruct
        (ExampleImporter ExampleJSONData) (the (TryGetObject (ExampleRows ! 1))) (Name ''r1''))))
        (Name ''r1'') = Some (InitializeStruct ExampleHost ExampleRowStruct)
   \<and> fst (ReadRow ExampleHost ExampleRowStruct (ExampleImporter ExampleJSONData)
             (the (TryGetObject (ExampleRows ! 1))) 1) = False
   \<and> (\<exists>RowData.
        Find (RowMap (DataTable (snd (ReadRow ExampleHost ExampleRowStruct
           (ExampleImporter ExampleJSONData) (the (TryGetObject (ExampleRows ! 1))) 1))))
           (Name ''r1'') = Some RowData
        \<and> BoolOf (RowData (Name ''Enabled'') 0) = Some True \<and> IsRaw (RowData (Name ''Label'') 0))"
proof -
  define obj where "obj = the (TryGetObject (ExampleRows ! 1))"
  define this where "this = ExampleImporter ExampleJSONData"
  define this2 where "this2 = RegisterRow ExampleHost ExampleRowStruct this obj (Name ''r1'')"
  define res where "res = ReadStruct ExampleHost (bIgnoreMissingFields (DataTable this2)) obj
      ExampleRowStruct (Name ''r1'') (InitializeStruct ExampleHost ExampleRowStruct)
      (ImportProblems this2)"
  have h1: "Name ''r1'' = MakeValidName ExampleHost
      (GetStringField ExampleHost obj (GetKeyFieldName (DataTable this)))"
    unfolding obj_def this_def by code_simp
  have h2: "\<not> IsNone (Name ''r1'')" by code_simp
  have h3: "AllowDuplicateRowsOnImport (DataTable this)
      \<or> Find (RowMap (DataTable this)) (Name ''r1'') = None"
    unfolding this_def by (simp add: ExampleImporter_def)
  have h5: "ReadStruct ExampleHost (bIgnoreMissingFields (DataTable this2)) obj
      ExampleRowStruct (Name ''r1'') (InitializeStruct ExampleHost ExampleRowStruct)
      (ImportProblems this2) = (fst res, fst (snd res), snd (snd res))"
    by (simp add: res_def)
  have ok: "fst res = False"
    unfolding res_def this2_def obj_def this_def by code_simp
  have d1: "BoolOf (fst (snd res) (Name ''Enabled'') 0) = Some True"
    unfolding res_def this2_def obj_def this_def by code_simp
  have d2: "IsRaw (fst (snd res) (Name ''Label'') 0)"
    unfolding res_def this2_def obj_def this_def by code_simp
  from ReadRow_registers_before_populating [OF h1 h2 h3 this2_def h5, of 1] h2 ok d1 d2
  show ?thesis
    unfolding this2_def obj_def this_def by simp
qed


section \<open>The struct walker\<close>

subsection \<open>When \<open>ReadStruct\<close> fails\<close>

lemma StaticArrayNotArray_iff:
  "StaticArrayNotArray obj p \<longleftrightarrow>
     1 < ArrayDim p \<and>
     (\<exists>v. FindParsedPropertyValue obj (GetPropertyImportNames p) = Some v \<and> TryGetArray v = None)"
  by (simp add: StaticArrayNotArray_def split: option.splits)

lemma ReadStruct_field_false_iff:
  "(\<not> fst (ReadStruct_field H ign obj p row d ps)) \<longleftrightarrow>
     (ArrayDim p \<noteq> 1 \<and>
      (\<exists>v. FindParsedPropertyValue obj (GetPropertyImportNames p) = Some v \<and> TryGetArray v = None))"
  by (simp add: ReadStruct_field.simps Let_def split: option.splits prod.splits)

lemma ReadStruct_fields_false_iff:
  "(\<not> fst (ReadStruct_fields H ign obj props row d ps)) \<longleftrightarrow>
     (\<exists>p\<in>set props. ArrayDim p \<noteq> 1 \<and>
        (\<exists>v. FindParsedPropertyValue obj (GetPropertyImportNames p) = Some v \<and> TryGetArray v = None))"
proof (induct props arbitrary: d ps)
  case Nil
  show ?case by (simp add: ReadStruct_fields.simps)
next
  case (Cons p rest)
  obtain go d1 ps1 where r: "ReadStruct_field H ign obj p row d ps = (go, d1, ps1)"
    by (metis prod_cases3)
  have go: "(\<not> go) \<longleftrightarrow> (ArrayDim p \<noteq> 1 \<and>
      (\<exists>v. FindParsedPropertyValue obj (GetPropertyImportNames p) = Some v \<and> TryGetArray v = None))"
    using ReadStruct_field_false_iff [of H ign obj p row d ps] by (simp add: r)
  show ?case
  proof (cases go)
    case True
    with go show ?thesis
      by (auto simp add: ReadStruct_fields.simps r Cons)
  next
    case False
    with go show ?thesis
      by (auto simp add: ReadStruct_fields.simps r)
  qed
qed

lemma ReadStruct_fields_append:
  "ReadStruct_fields H ign obj (xs @ ys) row d ps =
     (case ReadStruct_fields H ign obj xs row d ps of
        (ok, d1, ps1) \<Rightarrow> if ok then ReadStruct_fields H ign obj ys row d1 ps1 else (False, d1, ps1))"
proof (induct xs arbitrary: d ps)
  case Nil
  show ?case by (simp add: ReadStruct_fields.simps)
next
  case (Cons p rest)
  obtain go d1 ps1 where r: "ReadStruct_field H ign obj p row d ps = (go, d1, ps1)"
    by (metis prod_cases3)
  show ?case
    by (cases go) (simp_all add: ReadStruct_fields.simps r Cons)
qed

lemma ReadStruct_field_missing:
  assumes "FindParsedPropertyValue obj (GetPropertyImportNames p) = None"
  shows "ReadStruct_field H ign obj p row d ps =
           (True, d,
            if (WITH_EDITOR H \<and> DataTableImportOptional p) \<or> ign then ps
            else ps @ [RowMissingEntry row (GetPropertyExportName p)])"
  using assms by (simp add: ReadStruct_field.simps Let_def)

lemma ReadStruct_field_entry:
  assumes "FindParsedPropertyValue obj (GetPropertyImportNames p) = Some v"
    and "ArrayDim p = 1"
  shows "ReadStruct_field H ign obj p row d ps =
           (let col = GetPropertyExportName p;
                e1 = DecodeStructEntry H ign v row col d p
            in if HS_GRIDLY_ALLOW_ARBITARY_STRUCT_IN_TABLE H \<and> \<not> fst e1 \<and> Type v = EJson_String
               then (case DeserializeValue H (case TryGetString H v of Some s \<Rightarrow> s | None \<Rightarrow> []) of
                       None \<Rightarrow> (True, fst (snd e1), ps @ snd (snd e1))
                     | Some v2 \<Rightarrow>
                         (let e2 = DecodeStructEntry H ign v2 row col (fst (snd e1)) p
                          in (True, fst (snd e2), ps @ snd (snd e1) @ snd (snd e2))))
               else (True, fst (snd e1), ps @ snd (snd e1)))"
  apply (subst ReadStruct_field.simps)
  apply (simp add: assms Let_def ReadStructEntry_log apsnd_def map_prod_def case_prod_beta
      split: option.splits)
  done

lemma ReadStruct_field_not_array:
  assumes "FindParsedPropertyValue obj (GetPropertyImportNames p) = Some v"
    and "ArrayDim p \<noteq> 1"
    and "TryGetArray v = None"
  shows "ReadStruct_field H ign obj p row d ps =
           (False, d, ps @ [PropertyIncorrectType (GetPropertyExportName p) row ''Array''
                              (JSONTypeToString (Type v))])"
  using assms by (simp add: ReadStruct_field.simps Let_def)

lemma ReadStruct_field_array:
  assumes "FindParsedPropertyValue obj (GetPropertyImportNames p) = Some v"
    and "ArrayDim p \<noteq> 1"
    and "TryGetArray v = Some vals"
  shows "ReadStruct_field H ign obj p row d ps =
           (let col = GetPropertyExportName p;
                a = DecodeStaticArray H ign vals row col p [0..<nat (ArrayDim p)] d
            in (True, fst a,
                ps @ (if ArrayDim p \<noteq> int (length vals)
                      then [StaticArraySizeMismatch col row (ArrayDim p) (int (length vals))]
                      else [])
                   @ snd a))"
  apply (subst ReadStruct_field.simps)
  apply (simp add: assms Let_def ReadStaticArray_log apsnd_def map_prod_def case_prod_beta)
  done

lemma ReadStruct_fields_reached:
  assumes "\<forall>p\<in>set props. 1 \<le> ArrayDim p"
  shows "snd (ReadStruct_fields H ign obj props row d ps) =
           foldl (\<lambda>st p. snd (ReadStruct_field H ign obj p row (fst st) (snd st))) (d, ps)
             (FieldsReached obj props)"
  using assms
proof (induct props arbitrary: d ps)
  case Nil
  show ?case by (simp add: ReadStruct_fields.simps FieldsReached_def)
next
  case (Cons p rest)
  obtain go d1 ps1 where r: "ReadStruct_field H ign obj p row d ps = (go, d1, ps1)"
    by (metis prod_cases3)
  have dim: "(ArrayDim p \<noteq> 1) = (1 < ArrayDim p)"
    using Cons.prems by force
  have go: "go \<longleftrightarrow> \<not> StaticArrayNotArray obj p"
    using ReadStruct_field_false_iff [of H ign obj p row d ps]
    by (auto simp add: r StaticArrayNotArray_iff dim)
  have rest: "\<forall>p\<in>set rest. 1 \<le> ArrayDim p"
    using Cons.prems by simp
  show ?case
  proof (cases go)
    case True
    then have "FieldsReached obj (p # rest) = p # FieldsReached obj rest"
      using go by (simp add: FieldsReached_def)
    then show ?thesis
      using True Cons.hyps [OF rest, of d1 ps1] by (simp add: ReadStruct_fields.simps r)
  next
    case False
    then have "FieldsReached obj (p # rest) = [p]"
      using go by (simp add: FieldsReached_def)
    then show ?thesis
      using False by (simp add: ReadStruct_fields.simps r)
  qed
qed

lemma FieldsReached_all:
  assumes "\<forall>p\<in>set props. \<not> StaticArrayNotArray obj p"
  shows "FieldsReached obj props = props"
  using assms by (induct props) (simp_all add: FieldsReached_def)

text \<open>
  Claim C5. For a record type whose fields all have a static arity of at least 1,
  \<^item> \<open>ReadStruct\<close> returns false exactly when some field of static arity greater than 1 has
    a matched JSON value that is not an array: nothing else makes it fail;
  \<^item> the fields are processed in declaration order: for every split of the declared fields
    into \<open>xs\<close> and \<open>ys\<close>, \<open>ReadStruct\<close> is the loop over \<open>xs\<close> followed, when that has not
    failed, by the loop over \<open>ys\<close> on what it has left, and is the failure of \<open>xs\<close> with the
    fields of \<open>ys\<close> untouched otherwise;
  \<^item> the memory and the problems \<open>ReadStruct\<close> leaves are those of the fields it reaches,
    each processed in declaration order on what the fields before it have left: all the
    declared fields when it returns true, and otherwise the fields up to the failing one,
    the fields after it being left as they were.

  What processing a field does, on the memory \<open>d'\<close> and the problems \<open>ps'\<close> it finds:
  \<^item> a field none of whose import names is in the row object never fails the row, leaves
    the record memory as it is, and logs \<^verbatim>\<open>Row ... is missing an entry for ...\<close> unless it is
    optional for import or the table ignores missing fields;
  \<^item> a field of static arity 1 is given to \<open>ReadStructEntry\<close> and never fails the row: it
    leaves the memory and appends the problems of that call (and, under the switch
    \<^verbatim>\<open>HS_GRIDLY_ALLOW_ARBITARY_STRUCT_IN_TABLE\<close>, of the second call on the value a failing
    string parses to);
  \<^item> a field of another arity whose value is not an array fails the row, leaves the memory
    as it is and appends one problem, \<^verbatim>\<open>... is the incorrect type. Expected Array, got ...\<close>;
  \<^item> a field of another arity whose value is an array never fails the row: it appends the
    size mismatch, if any, and leaves the memory and appends the problems of the loop
    over its indices.
\<close>

theorem ReadStruct_false_iff:
  assumes "\<forall>p\<in>set (Properties S). 1 \<le> ArrayDim p"
  shows "(fst (ReadStruct H ign obj S row d ps) = False \<longleftrightarrow>
            (\<exists>p\<in>set (Properties S). StaticArrayNotArray obj p))
       \<and> (\<forall>xs ys. Properties S = xs @ ys \<longrightarrow>
            ReadStruct H ign obj S row d ps =
              (case ReadStruct_fields H ign obj xs row d ps of
                 (ok, d1, ps1) \<Rightarrow>
                   if ok then ReadStruct_fields H ign obj ys row d1 ps1 else (False, d1, ps1)))
       \<and> snd (ReadStruct H ign obj S row d ps) =
            foldl (\<lambda>st p. snd (ReadStruct_field H ign obj p row (fst st) (snd st))) (d, ps)
              (FieldsReached obj (Properties S))
       \<and> (fst (ReadStruct H ign obj S row d ps) \<longrightarrow>
            FieldsReached obj (Properties S) = Properties S)
       \<and> (\<forall>p d' ps'. FindParsedPropertyValue obj (GetPropertyImportNames p) = None \<longrightarrow>
            ReadStruct_field H ign obj p row d' ps' =
              (True, d',
               if (WITH_EDITOR H \<and> DataTableImportOptional p) \<or> ign then ps'
               else ps' @ [RowMissingEntry row (GetPropertyExportName p)]))
       \<and> (\<forall>p v d' ps'. FindParsedPropertyValue obj (GetPropertyImportNames p) = Some v \<longrightarrow>
            ArrayDim p = 1 \<longrightarrow>
            ReadStruct_field H ign obj p row d' ps' =
              (let col = GetPropertyExportName p;
                   e1 = DecodeStructEntry H ign v row col d' p
               in if HS_GRIDLY_ALLOW_ARBITARY_STRUCT_IN_TABLE H \<and> \<not> fst e1 \<and> Type v = EJson_String
                  then (case DeserializeValue H (case TryGetString H v of Some s \<Rightarrow> s | None \<Rightarrow> []) of
                          None \<Rightarrow> (True, fst (snd e1), ps' @ snd (snd e1))
                        | Some v2 \<Rightarrow>
                            (let e2 = DecodeStructEntry H ign v2 row col (fst (snd e1)) p
                             in (True, fst (snd e2), ps' @ snd (snd e1) @ snd (snd e2))))
                  else (True, fst (snd e1), ps' @ snd (snd e1))))
       \<and> (\<forall>p v d' ps'. FindParsedPropertyValue obj (GetPropertyImportNames p) = Some v \<longrightarrow>
            ArrayDim p \<noteq> 1 \<longrightarrow> TryGetArray v = None \<longrightarrow>
            ReadStruct_field H ign obj p row d' ps' =
              (False, d', ps' @ [PropertyIncorrectType (GetPropertyExportName p) row ''Array''
                                  (JSONTypeToString (Type v))]))
       \<and> (\<forall>p v vals d' ps'. FindParsedPropertyValue obj (GetPropertyImportNames p) = Some v \<longrightarrow>
            ArrayDim p \<noteq> 1 \<longrightarrow> TryGetArray v = Some vals \<longrightarrow>
            ReadStruct_field H ign obj p row d' ps' =
              (let col = GetPropertyExportName p;
                   a = DecodeStaticArray H ign vals row col p [0..<nat (ArrayDim p)] d'
               in (True, fst a,
                   ps' @ (if ArrayDim p \<noteq> int (length vals)
                          then [StaticArraySizeMismatch col row (ArrayDim p) (int (length vals))]
                          else [])
                       @ snd a)))"
proof -
  have a: "\<And>p. p \<in> set (Properties S) \<Longrightarrow> (ArrayDim p \<noteq> 1) = (1 < ArrayDim p)"
    using assms by force
  have 1: "(fst (ReadStruct H ign obj S row d ps) = False) \<longleftrightarrow>
      (\<exists>p\<in>set (Properties S). StaticArrayNotArray obj p)"
    unfolding ReadStruct.simps StaticArrayNotArray_iff
    using ReadStruct_fields_false_iff [of H ign obj "Properties S" row d ps] a by auto
  have 2: "\<forall>xs ys. Properties S = xs @ ys \<longrightarrow>
      ReadStruct H ign obj S row d ps =
        (case ReadStruct_fields H ign obj xs row d ps of
           (ok, d1, ps1) \<Rightarrow>
             if ok then ReadStruct_fields H ign obj ys row d1 ps1 else (False, d1, ps1))"
    by (simp add: ReadStruct.simps ReadStruct_fields_append)
  have 3: "snd (ReadStruct H ign obj S row d ps) =
      foldl (\<lambda>st p. snd (ReadStruct_field H ign obj p row (fst st) (snd st))) (d, ps)
        (FieldsReached obj (Properties S))"
    unfolding ReadStruct.simps using assms by (rule ReadStruct_fields_reached)
  have 4: "fst (ReadStruct H ign obj S row d ps) \<Longrightarrow>
      FieldsReached obj (Properties S) = Properties S"
    using 1 by (intro FieldsReached_all) simp
  show ?thesis
    apply (intro conjI allI impI)
           apply (rule 1)
          apply (simp add: 2)
         apply (rule 3)
        apply (erule 4)
       apply (erule ReadStruct_field_missing)
      apply (erule (1) ReadStruct_field_entry)
     apply (erule (2) ReadStruct_field_not_array)
    apply (erule (2) ReadStruct_field_array)
    done
qed

theorem ReadStruct_false_iff_witness:
  "list_all (\<lambda>p. 1 \<le> ArrayDim p) (Properties ExampleRowStruct)
   \<and> fst (ReadStruct ExampleHost False (the (TryGetObject (ExampleRows ! 1))) ExampleRowStruct
            (Name ''r1'') (\<lambda>n i. VRaw) []) = False
   \<and> fst (ReadStruct ExampleHost False (the (TryGetObject (ExampleRows ! 0))) ExampleRowStruct
            (Name ''r0'') (\<lambda>n i. VRaw) []) = True
   \<and> fst (ReadStruct ExampleHost False [] ExampleRowStruct (Name ''r'') (\<lambda>n i. VRaw) []) = True
   \<and> map GetFName (FieldsReached (the (TryGetObject (ExampleRows ! 1))) (Properties ExampleRowStruct)) =
       [Name ''Enabled'', Name ''Slots'']
   \<and> FieldsReached (the (TryGetObject (ExampleRows ! 0))) (Properties ExampleRowStruct) =
       Properties ExampleRowStruct
   \<and> snd (snd (ReadStruct ExampleHost False (the (TryGetObject (ExampleRows ! 1))) ExampleRowStruct
            (Name ''r1'') (\<lambda>n i. VRaw) [])) =
       [PropertyIncorrectType ''Slots'' (Name ''r1'') ''Array'' ''String'']
   \<and> BoolOf (fst (snd (ReadStruct ExampleHost False (the (TryGetObject (ExampleRows ! 1)))
            ExampleRowStruct (Name ''r1'') (\<lambda>n i. VRaw) [])) (Name ''Enabled'') 0) = Some True
   \<and> IsRaw (fst (snd (ReadStruct ExampleHost False (the (TryGetObject (ExampleRows ! 1)))
            ExampleRowStruct (Name ''r1'') (\<lambda>n i. VRaw) [])) (Name ''Label'') 0)
   \<and> snd (snd (ReadStruct ExampleHost False (the (TryGetObject (ExampleRows ! 0))) ExampleRowStruct
            (Name ''r0'') (\<lambda>n i. VRaw) [])) = []
   \<and> BoolOf (fst (snd (ReadStruct ExampleHost False (the (TryGetObject (ExampleRows ! 0)))
            ExampleRowStruct (Name ''r0'') (\<lambda>n i. VRaw) [])) (Name ''Enabled'') 0) = Some True
   \<and> map (\<lambda>j. BoolOf (fst (snd (ReadStruct ExampleHost False (the (TryGetObject (ExampleRows ! 0)))
            ExampleRowStruct (Name ''r0'') (\<lambda>n i. VRaw) [])) (Name ''Slots'') j)) [0, 1] =
       [Some True, Some False]
   \<and> TextOf (fst (snd (ReadStruct ExampleHost False (the (TryGetObject (ExampleRows ! 0)))
            ExampleRowStruct (Name ''r0'') (\<lambda>n i. VRaw) [])) (Name ''Label'') 0) = Some ''Start''
   \<and> snd (snd (ReadStruct ExampleHost False [] ExampleRowStruct (Name ''r'') (\<lambda>n i. VRaw) [])) =
       [RowMissingEntry (Name ''r'') ''Enabled'', RowMissingEntry (Name ''r'') ''Slots'',
        RowMissingEntry (Name ''r'') ''_path'', RowMissingEntry (Name ''r'') ''Label'']"
proof -
  define obj0 where "obj0 = the (TryGetObject (ExampleRows ! 0))"
  define obj1 where "obj1 = the (TryGetObject (ExampleRows ! 1))"
  have h: "list_all (\<lambda>p. 1 \<le> ArrayDim p) (Properties ExampleRowStruct)" by code_simp
  then have h': "\<forall>p\<in>set (Properties ExampleRowStruct). 1 \<le> ArrayDim p"
    by (simp add: list_all_iff)
  have b1: "list_ex (StaticArrayNotArray obj1) (Properties ExampleRowStruct)"
    unfolding obj1_def by code_simp
  have b0: "\<not> list_ex (StaticArrayNotArray obj0) (Properties ExampleRowStruct)"
    unfolding obj0_def by code_simp
  have b2: "\<not> list_ex (StaticArrayNotArray []) (Properties ExampleRowStruct)"
    by code_simp
  note t1 = ReadStruct_false_iff [OF h', of ExampleHost False obj1 "Name ''r1''" "\<lambda>n i. VRaw" "[]"]
  note t0 = ReadStruct_false_iff [OF h', of ExampleHost False obj0 "Name ''r0''" "\<lambda>n i. VRaw" "[]"]
  note t2 = ReadStruct_false_iff [OF h', of ExampleHost False "[]" "Name ''r''" "\<lambda>n i. VRaw" "[]"]
  have f1: "fst (ReadStruct ExampleHost False obj1 ExampleRowStruct (Name ''r1'') (\<lambda>n i. VRaw) []) = False"
    using t1 b1 unfolding list_ex_iff by blast
  have f0: "fst (ReadStruct ExampleHost False obj0 ExampleRowStruct (Name ''r0'') (\<lambda>n i. VRaw) []) = True"
    using t0 b0 unfolding list_ex_iff by blast
  have f2: "fst (ReadStruct ExampleHost False [] ExampleRowStruct (Name ''r'') (\<lambda>n i. VRaw) []) = True"
    using t2 b2 unfolding list_ex_iff by blast
  have r0: "FieldsReached obj0 (Properties ExampleRowStruct) = Properties ExampleRowStruct"
    using t0 f0 by blast
  have r: "map GetFName (FieldsReached obj1 (Properties ExampleRowStruct)) =
      [Name ''Enabled'', Name ''Slots'']"
    unfolding obj1_def by code_simp
  have s1: "snd (ReadStruct ExampleHost False obj1 ExampleRowStruct (Name ''r1'') (\<lambda>n i. VRaw) []) =
      foldl (\<lambda>st p. snd (ReadStruct_field ExampleHost False obj1 p (Name ''r1'') (fst st) (snd st)))
        (\<lambda>n i. VRaw, []) (FieldsReached obj1 (Properties ExampleRowStruct))"
    using t1 by blast
  have e1: "snd (foldl (\<lambda>st p. snd (ReadStruct_field ExampleHost False obj1 p (Name ''r1'')
        (fst st) (snd st))) (\<lambda>n i. VRaw, []) (FieldsReached obj1 (Properties ExampleRowStruct))) =
      [PropertyIncorrectType ''Slots'' (Name ''r1'') ''Array'' ''String'']"
    unfolding obj1_def by code_simp
  have p1: "snd (snd (ReadStruct ExampleHost False obj1 ExampleRowStruct (Name ''r1'')
      (\<lambda>n i. VRaw) [])) = [PropertyIncorrectType ''Slots'' (Name ''r1'') ''Array'' ''String'']"
    unfolding s1 by (rule e1)
  have m1: "BoolOf (fst (snd (ReadStruct ExampleHost False obj1 ExampleRowStruct (Name ''r1'')
      (\<lambda>n i. VRaw) [])) (Name ''Enabled'') 0) = Some True"
    unfolding obj1_def by code_simp
  have m2: "IsRaw (fst (snd (ReadStruct ExampleHost False obj1 ExampleRowStruct (Name ''r1'')
      (\<lambda>n i. VRaw) [])) (Name ''Label'') 0)"
    unfolding obj1_def by code_simp
  have p0: "snd (snd (ReadStruct ExampleHost False obj0 ExampleRowStruct (Name ''r0'')
      (\<lambda>n i. VRaw) [])) = []"
    unfolding obj0_def by code_simp
  have m3: "BoolOf (fst (snd (ReadStruct ExampleHost False obj0 ExampleRowStruct (Name ''r0'')
      (\<lambda>n i. VRaw) [])) (Name ''Enabled'') 0) = Some True"
    unfolding obj0_def by code_simp
  have m4: "map (\<lambda>j. BoolOf (fst (snd (ReadStruct ExampleHost False obj0 ExampleRowStruct (Name ''r0'')
      (\<lambda>n i. VRaw) [])) (Name ''Slots'') j)) [0, 1] = [Some True, Some False]"
    unfolding obj0_def by code_simp
  have m5: "TextOf (fst (snd (ReadStruct ExampleHost False obj0 ExampleRowStruct (Name ''r0'')
      (\<lambda>n i. VRaw) [])) (Name ''Label'') 0) = Some ''Start''"
    unfolding obj0_def by code_simp
  have p2: "snd (snd (ReadStruct ExampleHost False [] ExampleRowStruct (Name ''r'') (\<lambda>n i. VRaw) [])) =
       [RowMissingEntry (Name ''r'') ''Enabled'', RowMissingEntry (Name ''r'') ''Slots'',
        RowMissingEntry (Name ''r'') ''_path'', RowMissingEntry (Name ''r'') ''Label'']"
    by code_simp
  show ?thesis
    unfolding obj0_def [symmetric] obj1_def [symmetric]
    using h f1 f0 f2 r r0 p1 m1 m2 p0 m3 m4 m5 p2 by blast
qed

subsection \<open>Maps\<close>






subsection \<open>No container inside a container\<close>

















subsection \<open>Fixed-size array fields\<close>







subsection \<open>Dynamic arrays and sets\<close>







end
